theory Spec2Isabelle
  imports Complex_Main "HOL-Library.Sublist" "HOL-Library.AList"
begin

section \<open>Python strings\<close>

text \<open>
  Strings are character lists. The model covers ASCII text: \<open>str.lower\<close>,
  \<open>str.upper\<close> and the character classes of \<open>re\<close> are written out for the ASCII
  range, and \<open>len\<close> is the number of characters.
\<close>

definition upper_letters :: string where
  "upper_letters = ''ABCDEFGHIJKLMNOPQRSTUVWXYZ''"

definition lower_letters :: string where
  "lower_letters = ''abcdefghijklmnopqrstuvwxyz''"

definition digit_chars :: string where
  "digit_chars = ''0123456789''"

definition lower_char :: "char \<Rightarrow> char" where
  "lower_char c = (case map_of (zip upper_letters lower_letters) c of Some d \<Rightarrow> d | None \<Rightarrow> c)"

definition upper_char :: "char \<Rightarrow> char" where
  "upper_char c = (case map_of (zip lower_letters upper_letters) c of Some d \<Rightarrow> d | None \<Rightarrow> c)"

text \<open>\<open>s.lower()\<close>\<close>

definition lower :: "string \<Rightarrow> string" where
  "lower s = map lower_char s"

text \<open>\<open>s.capitalize()\<close>: first character upper-cased, the rest lower-cased.\<close>

fun capitalize :: "string \<Rightarrow> string" where
  "capitalize [] = []"
| "capitalize (c # s) = upper_char c # lower s"

text \<open>\<open>t in s\<close> for two strings: \<open>t\<close> occurs in \<open>s\<close> as a contiguous block.\<close>

fun contains :: "string \<Rightarrow> string \<Rightarrow> bool" where
  "contains [] t = (t = [])"
| "contains (c # s) t = (prefix t (c # s) \<or> contains s t)"

text \<open>
  \<open>s.count(t)\<close>: the number of non-overlapping occurrences of \<open>t\<close> in \<open>s\<close>, scanning
  from the left; \<open>len(s) + 1\<close> for the empty \<open>t\<close>. The third argument counts the
  characters of the occurrence just found that are still to be stepped over.
\<close>

fun count_from :: "string \<Rightarrow> string \<Rightarrow> nat \<Rightarrow> nat" where
  "count_from [] t k = 0"
| "count_from (c # s) t (Suc k) = count_from s t k"
| "count_from (c # s) t 0 =
     (if prefix t (c # s) then Suc (count_from s t (length t - 1)) else count_from s t 0)"

definition str_count :: "string \<Rightarrow> string \<Rightarrow> nat" where
  "str_count s t = (if t = [] then Suc (length s) else count_from s t 0)"

text \<open>\<open>sep.join(parts)\<close>\<close>

fun join :: "string \<Rightarrow> string list \<Rightarrow> string" where
  "join sep [] = []"
| "join sep [p] = p"
| "join sep (p # q # ps) = p @ sep @ join sep (q # ps)"

text \<open>The whitespace of \<open>str.strip\<close> and of the class \<open>\s\<close>, in the ASCII range.\<close>

definition space_chars :: string where
  "space_chars = [CHR '' '', CHR 0x09, CHR 0x0A, CHR 0x0B, CHR 0x0C, CHR 0x0D,
                  CHR 0x1C, CHR 0x1D, CHR 0x1E, CHR 0x1F]"

definition is_space :: "char \<Rightarrow> bool" where
  "is_space c = (c \<in> set space_chars)"

text \<open>\<open>s.strip()\<close>\<close>

definition strip :: "string \<Rightarrow> string" where
  "strip s = rev (dropWhile is_space (rev (dropWhile is_space s)))"

text \<open>\<open>s[:n]\<close> for a non-negative constant \<open>n\<close> is \<open>take n s\<close>. For an integer
  \<open>k\<close> that may be negative, \<open>xs[:k]\<close> counts from the end and clamps at the start.\<close>

definition slice_to :: "'a list \<Rightarrow> int \<Rightarrow> 'a list" where
  "slice_to xs k = (if k < 0 then take (nat (int (length xs) + k)) xs else take (nat k) xs)"

text \<open>Decimal rendering of a natural number, as an f-string does it.\<close>

definition digit_of :: "nat \<Rightarrow> char" where
  "digit_of d = digit_chars ! d"

fun str_nat :: "nat \<Rightarrow> string" where
  "str_nat n = (if n < 10 then [digit_of n] else str_nat (n div 10) @ [digit_of (n mod 10)])"

declare str_nat.simps [simp del]

section \<open>Regular expressions\<close>

text \<open>
  The fragment of Python's \<open>re\<close> that the program's patterns use, with the
  backtracking order of the library: a match returns every way to match, most
  preferred first, so the head of the list is the match \<open>re\<close> reports.
\<close>

datatype cclass =
    Digit             \<comment> \<open>\<open>\d\<close>\<close>
  | Space             \<comment> \<open>\<open>\s\<close>\<close>
  | Dot               \<comment> \<open>\<open>.\<close>: any character but the newline\<close>
  | OneOf string      \<comment> \<open>\<open>[...]\<close>\<close>

fun in_class :: "cclass \<Rightarrow> char \<Rightarrow> bool" where
  "in_class Digit c = (c \<in> set digit_chars)"
| "in_class Space c = is_space c"
| "in_class Dot c = (c \<noteq> CHR 0x0A)"
| "in_class (OneOf cs) c = (c \<in> set cs)"

datatype regex =
    Lit string            \<comment> \<open>literal text\<close>
  | One cclass            \<comment> \<open>one character of a class\<close>
  | Plus cclass           \<comment> \<open>\<open>c+\<close>, greedy\<close>
  | StarLazy cclass       \<comment> \<open>\<open>c*?\<close>, lazy\<close>
  | Seq regex regex
  | Alt regex regex       \<comment> \<open>\<open>a|b\<close>\<close>
  | Group nat regex       \<comment> \<open>capturing group with its number\<close>
  | Ahead regex           \<comment> \<open>\<open>(?=r)\<close>\<close>
  | Behind cclass         \<comment> \<open>\<open>(?<=c)\<close> for a single character class\<close>
  | Eos                   \<comment> \<open>\<open>$\<close> without MULTILINE\<close>

type_synonym captures = "(nat \<times> string) list"
type_synonym mstate = "string \<times> captures"

text \<open>
  \<open>rmatch r subj (s, g)\<close>: the ways \<open>r\<close> matches at the position of the subject
  \<open>subj\<close> where the suffix \<open>s\<close> starts, each as the rest of the subject after the
  match and the groups captured so far.
\<close>

fun rmatch :: "regex \<Rightarrow> string \<Rightarrow> mstate \<Rightarrow> mstate list" where
  "rmatch (Lit t) subj (s, g) = (if prefix t s then [(drop (length t) s, g)] else [])"
| "rmatch (One c) subj (s, g) =
     (case s of [] \<Rightarrow> [] | x # s' \<Rightarrow> if in_class c x then [(s', g)] else [])"
| "rmatch (Plus c) subj (s, g) =
     map (\<lambda>n. (drop n s, g)) (rev [1 ..< Suc (length (takeWhile (in_class c) s))])"
| "rmatch (StarLazy c) subj (s, g) =
     map (\<lambda>n. (drop n s, g)) [0 ..< Suc (length (takeWhile (in_class c) s))]"
| "rmatch (Seq a b) subj st = concat (map (rmatch b subj) (rmatch a subj st))"
| "rmatch (Alt a b) subj st = rmatch a subj st @ rmatch b subj st"
| "rmatch (Group n r) subj (s, g) =
     map (\<lambda>(s', g'). (s', (n, take (length s - length s') s) # g')) (rmatch r subj (s, g))"
| "rmatch (Ahead r) subj st = (if rmatch r subj st = [] then [] else [st])"
| "rmatch (Behind c) subj (s, g) =
     (let pos = length subj - length s
      in if 0 < pos \<and> in_class c (subj ! (pos - 1)) then [(s, g)] else [])"
| "rmatch Eos subj (s, g) = (if s = [] \<or> s = [CHR 0x0A] then [(s, g)] else [])"

text \<open>The number of capturing groups of a pattern.\<close>

fun ngroups :: "regex \<Rightarrow> nat" where
  "ngroups (Seq a b) = ngroups a + ngroups b"
| "ngroups (Alt a b) = ngroups a + ngroups b"
| "ngroups (Group n r) = Suc (ngroups r)"
| "ngroups (Ahead r) = ngroups r"
| "ngroups _ = 0"

text \<open>
  \<open>re.search(r, subj)\<close>: the first position with a match, scanning from the left,
  and the preferred match there; \<open>None\<close> when there is none.
\<close>

fun search_at :: "regex \<Rightarrow> string \<Rightarrow> string \<Rightarrow> mstate option" where
  "search_at r subj [] = (case rmatch r subj ([], []) of [] \<Rightarrow> None | m # _ \<Rightarrow> Some m)"
| "search_at r subj (c # s) =
     (case rmatch r subj (c # s, []) of [] \<Rightarrow> search_at r subj s | m # _ \<Rightarrow> Some m)"

definition re_search :: "regex \<Rightarrow> string \<Rightarrow> mstate option" where
  "re_search r subj = search_at r subj subj"

datatype py_error = IndexError | AttributeError

text \<open>\<open>match.group(n)\<close> for \<open>n \<ge> 1\<close>: IndexError when the pattern has no group
  \<open>n\<close>, \<open>None\<close> when the group took no part in the match.\<close>

definition match_group :: "regex \<Rightarrow> mstate \<Rightarrow> nat \<Rightarrow> py_error + string option" where
  "match_group r m n = (if ngroups r < n then Inl IndexError else Inr (map_of (snd m) n))"

text \<open>
  \<open>re.findall(r, subj)\<close> for a pattern with one group: the text of group 1 of the
  successive non-overlapping matches. The last argument counts the characters of
  the match just found that are still to be stepped over. The patterns of the
  program start with a mandatory character, so no match is empty; after an empty
  match the scan would go on at the next character.
\<close>

definition group1 :: "mstate \<Rightarrow> string" where
  "group1 m = (case map_of (snd m) 1 of None \<Rightarrow> [] | Some t \<Rightarrow> t)"

fun findall_from :: "regex \<Rightarrow> string \<Rightarrow> string \<Rightarrow> nat \<Rightarrow> string list" where
  "findall_from r subj [] k =
     (if k = 0 then (case rmatch r subj ([], []) of [] \<Rightarrow> [] | m # _ \<Rightarrow> [group1 m]) else [])"
| "findall_from r subj (c # s) (Suc k) = findall_from r subj s k"
| "findall_from r subj (c # s) 0 =
     (case rmatch r subj (c # s, []) of
        [] \<Rightarrow> findall_from r subj s 0
      | m # _ \<Rightarrow> group1 m # findall_from r subj s (length (c # s) - length (fst m) - 1))"

definition re_findall :: "regex \<Rightarrow> string \<Rightarrow> string list" where
  "re_findall r subj = findall_from r subj subj 0"

text \<open>
  \<open>re.split(r, subj)\<close> for a pattern without groups that matches no empty text:
  the pieces of the subject between the successive matches. \<open>cur\<close> is the piece
  being read.
\<close>

fun split_from :: "regex \<Rightarrow> string \<Rightarrow> string \<Rightarrow> string \<Rightarrow> nat \<Rightarrow> string list" where
  "split_from r subj [] cur k = [cur]"
| "split_from r subj (c # s) cur (Suc k) = split_from r subj s cur k"
| "split_from r subj (c # s) cur 0 =
     (case rmatch r subj (c # s, []) of
        [] \<Rightarrow> split_from r subj s (cur @ [c]) 0
      | m # _ \<Rightarrow>
          (if length (fst m) < length (c # s)
           then cur # split_from r subj s [] (length (c # s) - length (fst m) - 1)
           else split_from r subj s (cur @ [c]) 0))"

definition re_split :: "regex \<Rightarrow> string \<Rightarrow> string list" where
  "re_split r subj = split_from r subj subj [] 0"

text \<open>
  \<open>re.findall(r'\b\w+\b', s)\<close>: the maximal runs of word characters (letters,
  digits and the underscore), in order. \<open>cur\<close> is the run being read.
\<close>

definition is_word_char :: "char \<Rightarrow> bool" where
  "is_word_char c = (c \<in> set (lower_letters @ upper_letters @ digit_chars @ ''_''))"

fun words_from :: "string \<Rightarrow> string \<Rightarrow> string list" where
  "words_from [] cur = (if cur = [] then [] else [cur])"
| "words_from (c # s) cur =
     (if is_word_char c then words_from s (cur @ [c])
      else if cur = [] then words_from s [] else cur # words_from s [])"

definition findall_words :: "string \<Rightarrow> string list" where
  "findall_words s = words_from s []"

section \<open>Data model\<close>

text \<open>
  The program passes dictionaries with string keys. Each kind of dictionary is a
  record; a field read with \<open>d.get(key, default)\<close> is an option, \<open>None\<close> for
  an absent key, and the default is applied where the code applies it.
\<close>

record metadata =
  md_platform :: "string option"
  md_title :: "string option"
  md_url :: "string option"
  md_heading_hierarchy :: "string list option"
  md_doc_type :: "string option"

text \<open>
  A retrieval result. \<open>VectorStore.query\<close> builds every result with the keys
  \<open>content\<close>, \<open>metadata\<close>, \<open>id\<close> and \<open>distance\<close> (the distance may be
  \<open>None\<close>); the ranker adds the three scores. Distances and scores are Python
  floats, modelled as reals.
\<close>

record result =
  content :: string
  metadata :: metadata
  rid :: string
  distance :: "real option"
  content_score :: "real option"
  metadata_score :: "real option"
  final_score :: "real option"

text \<open>
  The query analysis dictionary. \<open>retrieve\<close> fills \<open>cdp\<close>, \<open>query_type\<close> and
  \<open>is_relevant\<close>; \<open>retrieve_for_comparison\<close> fills \<open>cdps\<close>, \<open>feature\<close> and
  \<open>query_type\<close>. The \<open>feature\<close> key may be absent (\<open>None\<close>), present with the
  value \<open>None\<close> (\<open>Some None\<close>) or present with a string.
\<close>

record analysis =
  cdp :: "string option"
  query_type :: "string option"
  is_relevant :: "bool option"
  cdps :: "string list option"
  feature :: "string option option"

section \<open>Configuration\<close>

definition SIMILARITY_THRESHOLD :: real where
  "SIMILARITY_THRESHOLD = 0.7"

definition TOP_K_RESULTS :: int where
  "TOP_K_RESULTS = 5"

section \<open>The index\<close>

text \<open>
  The vector store is an external collaborator. \<open>VectorStore.query\<close> catches every
  exception and returns a list, so a query is a total function of the query text,
  the number of results and the filter; the filter is \<open>None\<close> or
  \<open>{"platform": p}\<close>, written \<open>Some p\<close>. The store records each invocation
  of \<open>query\<close> in \<open>calls\<close>, so that a claim can say the index was not touched.
\<close>

type_synonym index_call = "string \<times> int \<times> string option"

record vector_store =
  answer :: "string \<Rightarrow> int \<Rightarrow> string option \<Rightarrow> result list"
  calls :: "index_call list"

definition vs_query ::
  "vector_store \<Rightarrow> string \<Rightarrow> int \<Rightarrow> string option \<Rightarrow> result list \<times> vector_store" where
  "vs_query vs query_text n_results filter_dict =
     (answer vs query_text n_results filter_dict,
      vs\<lparr>calls := calls vs @ [(query_text, n_results, filter_dict)]\<rparr>)"

section \<open>Retriever\<close>

definition cdp_names :: "string list" where
  "cdp_names = [''segment'', ''mparticle'', ''lytics'', ''zeotap'']"

text \<open>\<open>DocumentRetriever._extract_cdp_from_query\<close>: the first name of the list
  that occurs in the lower-cased query.\<close>

definition extract_cdp_from_query :: "string \<Rightarrow> string option" where
  "extract_cdp_from_query query = find (contains (lower query)) cdp_names"

definition comparison_patterns :: "regex list" where
  "comparison_patterns =
     [Lit ''compare'', Lit ''difference between'', Lit ''vs'', Lit ''versus'',
      Seq (Lit ''how does '') (Seq (Plus Dot) (Lit '' compare'')),
      Lit ''which is better'', Lit ''pros and cons'']"

definition how_to_regex :: regex where
  "how_to_regex =
     Seq (Lit ''how '')
         (Group 1 (Alt (Lit ''to'') (Alt (Lit ''do'') (Alt (Lit ''can'') (Lit ''should'')))))"

definition how_to_patterns :: "regex list" where
  "how_to_patterns =
     [how_to_regex, Lit ''steps to'', Lit ''guide for'',
      Lit ''tutorial'', Lit ''instructions for'', Lit ''process of'']"

definition matches :: "string \<Rightarrow> regex \<Rightarrow> bool" where
  "matches s r = (re_search r s \<noteq> None)"

text \<open>\<open>DocumentRetriever._classify_query_type\<close>\<close>

definition classify_query_type :: "string \<Rightarrow> string" where
  "classify_query_type query =
     (let query_lower = lower query
      in if list_ex (matches query_lower) comparison_patterns then ''comparison''
         else if list_ex (matches query_lower) how_to_patterns then ''how-to''
         else ''general'')"

definition relevant_terms :: "string list" where
  "relevant_terms =
     [''segment'', ''mparticle'', ''lytics'', ''zeotap'', ''cdp'',
      ''customer data platform'', ''data'', ''analytics'', ''integration'',
      ''tracking'', ''source'', ''destination'', ''audience'', ''profile'',
      ''event'', ''user'', ''identity'', ''segment'', ''campaign'']"

text \<open>\<open>DocumentRetriever._is_relevant_query\<close>\<close>

definition is_relevant_query :: "string \<Rightarrow> bool" where
  "is_relevant_query query = list_ex (contains (lower query)) relevant_terms"

text \<open>The distance cutoff of both retrievers:
  \<open>result.get("distance") is None or result.get("distance") < SIMILARITY_THRESHOLD\<close>.\<close>

definition within_threshold :: "result \<Rightarrow> bool" where
  "within_threshold r = (case distance r of None \<Rightarrow> True | Some d \<Rightarrow> d < SIMILARITY_THRESHOLD)"

text \<open>
  \<open>DocumentRetriever.retrieve\<close>: the results, the analysis and the store after
  the call. \<open>cdp\<close> is \<open>None\<close> or one of the non-empty names, so \<open>if cdp\<close> holds
  exactly when a name was found, and the filter is then \<open>{"platform": cdp}\<close>.
\<close>

definition retrieve ::
  "vector_store \<Rightarrow> string \<Rightarrow> int \<Rightarrow> (result list \<times> analysis) \<times> vector_store" where
  "retrieve vs query top_k =
     (let c = extract_cdp_from_query query;
          qt = classify_query_type query;
          rel = is_relevant_query query;
          query_analysis = \<lparr>cdp = c, query_type = Some qt, is_relevant = Some rel,
                            cdps = None, feature = None\<rparr>
      in if \<not> rel then (([], query_analysis), vs)
         else (let (results, vs') = vs_query vs query top_k c
               in ((filter within_threshold results, query_analysis), vs')))"

text \<open>\<open>ComparisonRetriever._extract_cdps_for_comparison\<close>\<close>

definition extract_cdps_for_comparison :: "string \<Rightarrow> string list" where
  "extract_cdps_for_comparison query = filter (contains (lower query)) cdp_names"

definition feature_patterns :: "regex list" where
  "feature_patterns =
     [Seq (Lit ''how does '') (Seq (Plus Dot) (Seq (Lit '' '')
        (Seq (Group 1 (Alt (Lit ''handle'') (Alt (Lit ''manage'') (Alt (Lit ''support'')
                (Alt (Lit ''implement'') (Lit ''provide''))))))
        (Seq (Lit '' '') (Group 2 (Plus Dot)))))),
      Seq (Lit ''compare '') (Seq (Plus Dot) (Seq (Lit '' '')
        (Seq (Group 1 (Alt (Lit ''in terms of'') (Alt (Lit ''regarding'') (Lit ''for''))))
        (Seq (Lit '' '') (Group 2 (Plus Dot)))))),
      Seq (Lit ''difference between '') (Seq (Plus Dot) (Seq (Lit '' for '') (Group 1 (Plus Dot)))),
      Seq (Lit ''which is better for '') (Group 1 (Plus Dot)),
      Seq (Lit ''how do '') (Seq (Plus Dot) (Seq (Lit '' compare for '') (Group 1 (Plus Dot))))]"

text \<open>
  \<open>ComparisonRetriever._extract_feature_for_comparison\<close>: the first pattern that
  matches decides, and the code returns \<open>match.group(2).strip()\<close> for it, whatever
  the number of groups of that pattern.
\<close>

fun feature_loop :: "regex list \<Rightarrow> string \<Rightarrow> py_error + string option" where
  "feature_loop [] s = Inr None"
| "feature_loop (p # ps) s =
     (case re_search p s of
        None \<Rightarrow> feature_loop ps s
      | Some m \<Rightarrow>
          (case match_group p m 2 of
             Inl e \<Rightarrow> Inl e
           | Inr None \<Rightarrow> Inl AttributeError
           | Inr (Some t) \<Rightarrow> Inr (Some (strip t))))"

definition extract_feature_for_comparison :: "string \<Rightarrow> py_error + string option" where
  "extract_feature_for_comparison query = feature_loop feature_patterns (lower query)"

text \<open>The loop of \<open>retrieve_for_comparison\<close> over the platforms: one query of the
  index per platform, the cutoff applied to its answer, the result stored under the
  platform's key.\<close>

fun comparison_loop ::
  "string \<Rightarrow> int \<Rightarrow> string list \<Rightarrow> (string \<times> result list) list \<Rightarrow> vector_store
   \<Rightarrow> (string \<times> result list) list \<times> vector_store" where
  "comparison_loop cq k [] results vs = (results, vs)"
| "comparison_loop cq k (c # cs) results vs =
     (let (cdp_results, vs') = vs_query vs cq k (Some c)
      in comparison_loop cq k cs (AList.update c (filter within_threshold cdp_results) results) vs')"

text \<open>\<open>ComparisonRetriever.retrieve_for_comparison\<close>; \<open>if feature\<close> holds for a
  non-empty string.\<close>

definition retrieve_for_comparison ::
  "vector_store \<Rightarrow> string \<Rightarrow> int
   \<Rightarrow> py_error + (((string \<times> result list) list \<times> analysis) \<times> vector_store)" where
  "retrieve_for_comparison vs query top_k_per_cdp =
     (case extract_feature_for_comparison query of
        Inl e \<Rightarrow> Inl e
      | Inr feat \<Rightarrow>
          (let mentioned = extract_cdps_for_comparison query;
               cs = (if mentioned = [] then [''segment'', ''mparticle'', ''lytics'', ''zeotap'']
                     else mentioned);
               comparison_query = (case feat of None \<Rightarrow> query
                                   | Some f \<Rightarrow> if f = [] then query else f);
               query_analysis = \<lparr>cdp = None, query_type = Some ''comparison'',
                                 is_relevant = None, cdps = Some cs, feature = Some feat\<rparr>;
               (results, vs') = comparison_loop comparison_query top_k_per_cdp cs [] vs
           in Inr ((results, query_analysis), vs')))"

section \<open>Ranker\<close>

text \<open>The keywords of a query: its word tokens longer than three characters.\<close>

definition keywords_of :: "string \<Rightarrow> string list" where
  "keywords_of query_lower = filter (\<lambda>kw. 3 < length kw) (findall_words query_lower)"

text \<open>\<open>ResultRanker._calculate_content_relevance_score\<close>\<close>

definition calculate_content_relevance_score :: "string \<Rightarrow> string \<Rightarrow> real" where
  "calculate_content_relevance_score cont query =
     (let content_lower = lower cont;
          query_lower = lower query;
          keywords = keywords_of query_lower;
          keyword_count = sum_list (map (str_count content_lower) keywords);
          content_word_count = length (findall_words content_lower)
      in if content_word_count = 0 then 0
         else min 1 (real keyword_count / real content_word_count * 100 / 5))"

text \<open>\<open>ResultRanker._calculate_metadata_relevance_score\<close>\<close>

definition calculate_metadata_relevance_score :: "metadata \<Rightarrow> string \<Rightarrow> real" where
  "calculate_metadata_relevance_score md query =
     (let query_lower = lower query;
          is_how_to = matches query_lower how_to_regex;
          doc_type = (case md_doc_type md of None \<Rightarrow> ''unknown'' | Some d \<Rightarrow> d);
          type_match_score =
            (if is_how_to \<and> doc_type = ''how-to'' then 1
             else if \<not> is_how_to \<and> doc_type = ''reference'' then 0.8
             else if doc_type = ''overview'' then 0.6
             else 0);
          title_lower = lower (case md_title md of None \<Rightarrow> [] | Some t \<Rightarrow> t);
          keywords = keywords_of query_lower;
          title_match_count = sum_list (map (str_count title_lower) keywords);
          title_match_score = min 1 (real title_match_count / real (max 1 (length keywords)));
          heading_hierarchy = (case md_heading_hierarchy md of None \<Rightarrow> [] | Some hs \<Rightarrow> hs);
          heading_match_count =
            sum_list (map (\<lambda>heading. sum_list (map (str_count (lower heading)) keywords))
                          heading_hierarchy);
          heading_match_score =
            min 1 (real heading_match_count / real (max 1 (length keywords * 2)))
      in 0.4 * type_match_score + 0.3 * title_match_score + 0.3 * heading_match_score)"

text \<open>\<open>ResultRanker._calculate_final_score\<close>\<close>

definition calculate_final_score :: "real option \<Rightarrow> real \<Rightarrow> real \<Rightarrow> real" where
  "calculate_final_score dst c_score m_score =
     (let distance_score = (case dst of None \<Rightarrow> 1 | Some d \<Rightarrow> 1 - min 1 d)
      in 0.5 * distance_score + 0.3 * c_score + 0.2 * m_score)"

text \<open>The body of the scoring loop of \<open>rank_results\<close>: the result with its three
  scores added.\<close>

definition score_result :: "string \<Rightarrow> result \<Rightarrow> result" where
  "score_result query r =
     (let c_score = calculate_content_relevance_score (content r) query;
          m_score = calculate_metadata_relevance_score (metadata r) query;
          f_score = calculate_final_score (distance r) c_score m_score
      in r\<lparr>content_score := Some c_score, metadata_score := Some m_score,
            final_score := Some f_score\<rparr>)"

text \<open>\<open>x.get("final_score", 0)\<close>\<close>

definition get_final_score :: "result \<Rightarrow> real" where
  "get_final_score r = (case final_score r of None \<Rightarrow> 0 | Some s \<Rightarrow> s)"

text \<open>
  \<open>ResultRanker.rank_results\<close>. \<open>sorted(..., reverse=True)\<close> is stable: results
  with equal scores keep their order, as the stable insertion sort on the negated
  key does.
\<close>

definition rank_results :: "result list \<Rightarrow> string \<Rightarrow> result list" where
  "rank_results results query =
     (if results = [] then []
      else sort_key (\<lambda>x. - get_final_score x) (map (score_result query) results))"

text \<open>
  The deduplication loop of \<open>filter_results\<close>. \<open>h\<close> is Python's \<open>hash\<close> on
  strings, a parameter of the model: any function of the string.
\<close>

fun dedup_loop :: "(string \<Rightarrow> int) \<Rightarrow> result list \<Rightarrow> int set \<Rightarrow> result list \<Rightarrow> result list" where
  "dedup_loop h [] content_hashes unique_results = unique_results"
| "dedup_loop h (r # rs) content_hashes unique_results =
     (let content_hash = h (take 100 (content r))
      in if content_hash \<notin> content_hashes
         then dedup_loop h rs (insert content_hash content_hashes) (unique_results @ [r])
         else dedup_loop h rs content_hashes unique_results)"

text \<open>\<open>ResultRanker.filter_results\<close>\<close>

definition filter_results :: "(string \<Rightarrow> int) \<Rightarrow> result list \<Rightarrow> result list" where
  "filter_results h results =
     (if results = [] then []
      else dedup_loop h (filter (\<lambda>r. 0.3 \<le> get_final_score r) results) {} [])"

text \<open>\<open>ComparisonResultsProcessor.process_comparison_results\<close>; \<open>feature if feature
  else query\<close> takes the feature when it is a non-empty string.\<close>

fun process_loop ::
  "(string \<Rightarrow> int) \<Rightarrow> string \<Rightarrow> (string \<times> result list) list \<Rightarrow> (string \<times> result list) list
   \<Rightarrow> (string \<times> result list) list" where
  "process_loop h rq [] processed = processed"
| "process_loop h rq ((c, results) # rest) processed =
     process_loop h rq rest
       (AList.update c (filter_results h (rank_results results rq)) processed)"

definition process_comparison_results ::
  "(string \<Rightarrow> int) \<Rightarrow> (string \<times> result list) list \<Rightarrow> string \<Rightarrow> string option
   \<Rightarrow> (string \<times> result list) list" where
  "process_comparison_results h comparison_results query feat =
     (let ranking_query = (case feat of None \<Rightarrow> query | Some f \<Rightarrow> if f = [] then query else f)
      in process_loop h ranking_query comparison_results [])"

section \<open>Chunk preparation\<close>

text \<open>
  The overlap loop of \<open>split_text_into_chunks\<close>: walking the closed chunk from its
  last sentence backwards, sentences are put in front of the overlap while their
  lengths fit into \<open>chunk_overlap\<close>. Sizes are Python integers.
\<close>

fun overlap_loop :: "int \<Rightarrow> string list \<Rightarrow> string list \<Rightarrow> int \<Rightarrow> string list \<times> int" where
  "overlap_loop chunk_overlap [] overlap_sentences overlap_size = (overlap_sentences, overlap_size)"
| "overlap_loop chunk_overlap (s # rest) overlap_sentences overlap_size =
     (if overlap_size + int (length s) \<le> chunk_overlap
      then overlap_loop chunk_overlap rest (s # overlap_sentences) (overlap_size + int (length s))
      else (overlap_sentences, overlap_size))"

definition overlap_of :: "int \<Rightarrow> string list \<Rightarrow> string list \<times> int" where
  "overlap_of chunk_overlap current_chunk = overlap_loop chunk_overlap (rev current_chunk) [] 0"

text \<open>
  The main loop over the sentences, with the chunks kept as lists of sentences;
  \<open>split_text_into_chunks\<close> joins each with a space.
\<close>

fun chunk_loop ::
  "int \<Rightarrow> int \<Rightarrow> string list \<Rightarrow> string list list \<Rightarrow> string list \<Rightarrow> int \<Rightarrow> string list list" where
  "chunk_loop chunk_size chunk_overlap [] chunks current_chunk current_size =
     (if current_chunk \<noteq> [] then chunks @ [current_chunk] else chunks)"
| "chunk_loop chunk_size chunk_overlap (sentence # rest) chunks current_chunk current_size =
     (let sentence_size = int (length sentence)
      in if current_size + sentence_size > chunk_size \<and> current_chunk \<noteq> []
         then (let (overlap_sentences, overlap_size) = overlap_of chunk_overlap current_chunk
               in chunk_loop chunk_size chunk_overlap rest (chunks @ [current_chunk])
                    (overlap_sentences @ [sentence]) (overlap_size + sentence_size))
         else chunk_loop chunk_size chunk_overlap rest chunks
                (current_chunk @ [sentence]) (current_size + sentence_size))"

definition sentence_chunks :: "string list \<Rightarrow> int \<Rightarrow> int \<Rightarrow> string list list" where
  "sentence_chunks sentences chunk_size chunk_overlap =
     chunk_loop chunk_size chunk_overlap sentences [] [] 0"

text \<open>\<open>split_text_into_chunks\<close>. NLTK's sentence tokenizer is outside the
  program: it is the parameter \<open>sent_tokenize\<close>.\<close>

definition split_text_into_chunks ::
  "(string \<Rightarrow> string list) \<Rightarrow> string \<Rightarrow> int \<Rightarrow> int \<Rightarrow> string list" where
  "split_text_into_chunks sent_tokenize text chunk_size chunk_overlap =
     map (join '' '') (sentence_chunks (sent_tokenize text) chunk_size chunk_overlap)"

record heading =
  h_level :: "int option"
  h_text :: "string option"

record document =
  doc_url :: "string option"
  doc_title :: "string option"
  doc_content :: "string option"
  doc_headings :: "heading list option"
  doc_platform :: "string option"

text \<open>The heading loop of \<open>extract_metadata\<close>.\<close>

fun hierarchy_loop :: "heading list \<Rightarrow> int \<Rightarrow> string list \<Rightarrow> string list \<Rightarrow> string list" where
  "hierarchy_loop [] current_level current_hierarchy heading_hierarchy = heading_hierarchy"
| "hierarchy_loop (hdg # rest) current_level current_hierarchy heading_hierarchy =
     (let level = (case h_level hdg of None \<Rightarrow> 0 | Some l \<Rightarrow> l);
          txt = (case h_text hdg of None \<Rightarrow> [] | Some t \<Rightarrow> t);
          hier = (if level \<le> current_level then slice_to current_hierarchy (level - 1)
                  else current_hierarchy) @ [txt]
      in hierarchy_loop rest level hier (heading_hierarchy @ [join '' > '' hier]))"

text \<open>\<open>extract_metadata\<close>\<close>

definition extract_metadata :: "document \<Rightarrow> metadata" where
  "extract_metadata data =
     (let plat = (case doc_platform data of None \<Rightarrow> ''unknown'' | Some p \<Rightarrow> p);
          ttl = (case doc_title data of None \<Rightarrow> [] | Some t \<Rightarrow> t);
          u = (case doc_url data of None \<Rightarrow> [] | Some x \<Rightarrow> x);
          headings = (case doc_headings data of None \<Rightarrow> [] | Some hs \<Rightarrow> hs);
          heading_hierarchy = hierarchy_loop headings 0 [] [];
          tl = lower ttl;
          dtype = (if contains tl ''how to'' \<or> contains tl ''guide'' then ''how-to''
                   else if contains tl ''api'' \<or> contains tl ''reference'' then ''reference''
                   else if contains tl ''overview'' \<or> contains tl ''introduction'' then ''overview''
                   else ''unknown'')
      in \<lparr>md_platform = Some plat, md_title = Some ttl, md_url = Some u,
          md_heading_hierarchy = Some heading_hierarchy, md_doc_type = Some dtype\<rparr>)"

record chunk =
  chunk_content :: string
  chunk_id :: string
  chunk_metadata :: metadata

text \<open>\<open>prepare_document_chunks\<close>; \<open>extract_metadata\<close> always sets the platform,
  so \<open>metadata['platform']\<close> does not fail.\<close>

definition prepare_document_chunks ::
  "(string \<Rightarrow> string list) \<Rightarrow> document \<Rightarrow> int \<Rightarrow> int \<Rightarrow> chunk list" where
  "prepare_document_chunks sent_tokenize data chunk_size chunk_overlap =
     (let cont = (case doc_content data of None \<Rightarrow> [] | Some c \<Rightarrow> c);
          md = extract_metadata data;
          chunks = split_text_into_chunks sent_tokenize cont chunk_size chunk_overlap
      in map (\<lambda>(i, c). \<lparr>chunk_content = c,
                         chunk_id = (case md_platform md of None \<Rightarrow> [] | Some p \<Rightarrow> p)
                                    @ ''_'' @ str_nat i,
                         chunk_metadata = md\<rparr>)
             (enumerate 0 chunks))"

section \<open>Response generator\<close>

definition nl :: string where
  "nl = [CHR 0x0A]"

text \<open>\<open>\d+\.\s+(.*?)(?=\d+\.\s+|$)\<close>\<close>

definition numbered_regex :: regex where
  "numbered_regex =
     Seq (Plus Digit) (Seq (Lit ''.'') (Seq (Plus Space) (Seq (Group 1 (StarLazy Dot))
       (Ahead (Alt (Seq (Plus Digit) (Seq (Lit ''.'') (Plus Space))) Eos)))))"

text \<open>\<open>[\*\-]\s+(.*?)(?=[\*\-]\s+|$)\<close>\<close>

definition bullet_regex :: regex where
  "bullet_regex =
     Seq (One (OneOf ''*-'')) (Seq (Plus Space) (Seq (Group 1 (StarLazy Dot))
       (Ahead (Alt (Seq (One (OneOf ''*-'')) (Plus Space)) Eos))))"

text \<open>\<open>(?<=[.!?])\s+\<close>\<close>

definition sentence_break_regex :: regex where
  "sentence_break_regex = Seq (Behind (OneOf ''.!?'')) (Plus Space)"

text \<open>\<open>ResponseGenerator._extract_steps\<close>\<close>

definition extract_steps :: "string \<Rightarrow> string list" where
  "extract_steps cont =
     (let numbered_steps = re_findall numbered_regex cont
      in if numbered_steps \<noteq> [] then map strip numbered_steps
         else (let bullet_steps = re_findall bullet_regex cont
               in if bullet_steps \<noteq> [] then map strip bullet_steps
                  else map strip (filter (\<lambda>s. 20 < length (strip s))
                                         (re_split sentence_break_regex cont))))"

text \<open>\<open>ResponseGenerator._format_source_reference\<close>\<close>

definition format_source_reference :: "metadata \<Rightarrow> string" where
  "format_source_reference md =
     (let plat = capitalize (case md_platform md of None \<Rightarrow> [] | Some p \<Rightarrow> p);
          ttl = (case md_title md of None \<Rightarrow> ''Documentation'' | Some t \<Rightarrow> t);
          u = (case md_url md of None \<Rightarrow> [] | Some x \<Rightarrow> x)
      in if u \<noteq> [] then ''Source: '' @ plat @ '' - ['' @ ttl @ ''](''  @ u @ '')''
         else ''Source: '' @ plat @ '' - '' @ ttl)"

text \<open>The query response of a regular query and the response returned for it.\<close>

record query_response =
  qr_type :: "string option"
  qr_message :: "string option"
  qr_results :: "result list option"
  qr_analysis :: "analysis option"

record response =
  resp_type :: string
  resp_content :: string

definition text_response :: "string \<Rightarrow> response" where
  "text_response c = \<lparr>resp_type = ''text'', resp_content = c\<rparr>"

text \<open>The numbered lines of a step list: \<open>f"{i+1}. {step}"\<close> for each step.\<close>

definition step_lines :: "string list \<Rightarrow> string list" where
  "step_lines steps = map (\<lambda>(i, step). str_nat (i + 1) @ ''. '' @ step) (enumerate 0 steps)"

text \<open>The loop over \<open>results[1:3]\<close> that builds the additional information.\<close>

definition additional_block :: "nat \<times> result \<Rightarrow> string" where
  "additional_block = (\<lambda>(i, r).
     (let result_content = (if 200 < length (content r) then take 200 (content r) @ ''...''
                            else content r)
      in ''**Additional Information '' @ str_nat (i + 1) @ ''**:'' @ nl @ result_content @ nl @ nl
         @ format_source_reference (metadata r) @ nl @ nl))"

definition apostrophe :: string where
  "apostrophe = [CHR 0x27]"

text \<open>\<open>ResponseGenerator.generate_regular_response\<close>\<close>

definition generate_regular_response :: "query_response \<Rightarrow> response" where
  "generate_regular_response qr =
     (if qr_type qr = Some ''error'' then
        text_response (case qr_message qr of
           None \<Rightarrow> ''I'' @ apostrophe @ ''m sorry, I couldn'' @ apostrophe @ ''t process your question.''
         | Some m \<Rightarrow> m)
      else if qr_type qr = Some ''irrelevant'' then
        text_response (case qr_message qr of
           None \<Rightarrow> ''I'' @ apostrophe @ ''m sorry, but your question doesn'' @ apostrophe
                   @ ''t seem to be related to the CDP platforms I support.''
         | Some m \<Rightarrow> m)
      else if qr_type qr = Some ''no_results'' then
        text_response (case qr_message qr of
           None \<Rightarrow> ''I couldn'' @ apostrophe @ ''t find information related to your question.''
         | Some m \<Rightarrow> m)
      else
        (let results = (case qr_results qr of None \<Rightarrow> [] | Some rs \<Rightarrow> rs);
             an = qr_analysis qr
         in case results of
              [] \<Rightarrow> text_response (''I couldn'' @ apostrophe @ ''t find specific information to answer your question. Could you try rephrasing or asking a different question?'')
            | top_result # others \<Rightarrow>
               (let c = (case an of None \<Rightarrow> None | Some a \<Rightarrow> cdp a);
                    cdp_name = (case c of None \<Rightarrow> ''the CDP''
                                | Some n \<Rightarrow> if n = [] then ''the CDP'' else capitalize n);
                    cont = content top_result;
                    md = metadata top_result;
                    qt = (case an of None \<Rightarrow> ''general''
                          | Some a \<Rightarrow> (case query_type a of None \<Rightarrow> ''general'' | Some t \<Rightarrow> t));
                    response_text =
                      (if qt = ''how-to'' then
                         (let steps = extract_steps cont
                          in if 2 \<le> length steps
                             then ''Here'' @ apostrophe @ ''s how to do that in '' @ cdp_name @ '':''
                                  @ nl @ nl @ join nl (step_lines steps)
                             else ''Here'' @ apostrophe @ ''s information on how to do that in ''
                                  @ cdp_name @ '':'' @ nl @ nl @ cont)
                       else ''Here'' @ apostrophe @ ''s information about that from '' @ cdp_name
                            @ '':'' @ nl @ nl @ cont);
                    with_source = response_text @ nl @ nl @ format_source_reference md
                in if 1 < length results
                   then text_response (with_source @ nl @ nl
                          @ ''I found some additional information that might be helpful:'' @ nl @ nl
                          @ concat (map additional_block (enumerate 0 (take 2 others))))
                   else text_response with_source)))"

text \<open>The query response of a comparison query: its results are a dictionary from
  platform to results, kept as an association list in insertion order.\<close>

record comparison_response =
  cr_type :: "string option"
  cr_message :: "string option"
  cr_results :: "(string \<times> result list) list option"
  cr_analysis :: "analysis option"

text \<open>\<open>analysis.get("feature", "this feature")\<close> inside an f-string: a present
  \<open>None\<close> is rendered as the text \<open>None\<close>.\<close>

definition feature_text :: "analysis option \<Rightarrow> string" where
  "feature_text an =
     (case an of None \<Rightarrow> ''this feature''
      | Some a \<Rightarrow> (case feature a of None \<Rightarrow> ''this feature''
                    | Some None \<Rightarrow> ''None''
                    | Some (Some f) \<Rightarrow> f))"

text \<open>The loop of \<open>generate_comparison_response\<close> over the platforms of the
  result dictionary.\<close>

fun sections_loop :: "(string \<times> result list) list \<Rightarrow> string \<Rightarrow> string" where
  "sections_loop [] response_text = response_text"
| "sections_loop ((c, []) # rest) response_text = sections_loop rest response_text"
| "sections_loop ((c, top_result # others) # rest) response_text =
     (let cont = (if 300 < length (content top_result) then take 300 (content top_result) @ ''...''
                  else content top_result)
      in sections_loop rest
           (response_text @ ''**'' @ capitalize c @ ''**:'' @ nl @ cont @ nl @ nl
            @ format_source_reference (metadata top_result) @ nl @ nl))"

definition no_comparison_text :: string where
  "no_comparison_text = ''I couldn'' @ apostrophe @ ''t find specific information to compare the CDP platforms based on your question. Could you try asking a more specific comparison question?''"

text \<open>\<open>ResponseGenerator.generate_comparison_response\<close>\<close>

definition generate_comparison_response :: "comparison_response \<Rightarrow> response" where
  "generate_comparison_response qr =
     (if cr_type qr = Some ''no_results'' then
        text_response (case cr_message qr of
           None \<Rightarrow> ''I couldn'' @ apostrophe @ ''t find enough information to compare the CDP platforms based on your question.''
         | Some m \<Rightarrow> m)
      else
        (let results = (case cr_results qr of None \<Rightarrow> [] | Some rs \<Rightarrow> rs);
             feat = feature_text (cr_analysis qr)
         in if results = [] \<or> \<not> list_ex (\<lambda>(c, cdp_results). cdp_results \<noteq> []) results
            then text_response no_comparison_text
            else
              (let header = ''Here'' @ apostrophe @ ''s a comparison of how different CDPs handle ''
                            @ feat @ '':'' @ nl @ nl;
                   body = sections_loop results header;
                   summary = body @ nl @ ''**Summary**:'' @ nl
                             @ ''Each CDP platform has its own approach to '' @ feat @ ''. ''
               in if 2 \<le> length (filter (\<lambda>(c, cdp_results). cdp_results \<noteq> []) results)
                  then text_response (summary
                         @ ''Consider your specific requirements when choosing between them.'')
                  else text_response (summary
                         @ ''I could only find detailed information for some of the platforms. Consider checking the official documentation for more details.''))))"

section \<open>Derived notions and example inputs\<close>

text \<open>The platforms \<open>retrieve_for_comparison\<close> queries and the query text it
  sends to the index, as functions of the query and the extracted feature.\<close>

definition platforms_of :: "string \<Rightarrow> string list" where
  "platforms_of q = (if extract_cdps_for_comparison q = []
                     then [''segment'', ''mparticle'', ''lytics'', ''zeotap'']
                     else extract_cdps_for_comparison q)"

definition query_for :: "string option \<Rightarrow> string \<Rightarrow> string" where
  "query_for feat q = (case feat of None \<Rightarrow> q | Some f \<Rightarrow> if f = [] then q else f)"

text \<open>The analysis \<open>retrieve\<close> returns for a query without any relevant term.\<close>

definition irrelevant_analysis :: "string \<Rightarrow> analysis" where
  "irrelevant_analysis q = \<lparr>cdp = None, query_type = Some (classify_query_type q),
      is_relevant = Some False, cdps = None, feature = None\<rparr>"

text \<open>The type classification as the specification words it: substring tests,
  comparison terms before how-to terms.\<close>

definition spec_comparison_terms :: "string list" where
  "spec_comparison_terms =
     [''compare'', ''difference between'', ''vs'', ''versus'', ''which is better'',
      ''pros and cons'']"

definition spec_how_to_terms :: "string list" where
  "spec_how_to_terms =
     [''how to'', ''how do'', ''how can'', ''how should'', ''steps to'', ''guide for'',
      ''tutorial'', ''instructions for'', ''process of'']"

text \<open>An index that answers every query with one result whose distance is exactly
  the threshold.\<close>

definition segment_metadata :: metadata where
  "segment_metadata =
     \<lparr>md_platform = Some ''segment'', md_title = Some ''Sources'',
      md_url = Some ''https://segment.com/docs/sources'', md_heading_hierarchy = None,
      md_doc_type = None\<rparr>"

definition result_at_threshold :: result where
  "result_at_threshold =
     \<lparr>content = ''Segment sources'', metadata = segment_metadata, rid = ''segment_0'',
      distance = Some 0.7, content_score = None, metadata_score = None, final_score = None\<rparr>"

definition store_at_threshold :: vector_store where
  "store_at_threshold = \<lparr>answer = (\<lambda>q k f. [result_at_threshold]), calls = []\<rparr>"

definition empty_store :: vector_store where
  "empty_store = \<lparr>answer = (\<lambda>q k f. []), calls = []\<rparr>"

text \<open>A document of two sentences, and a tokenizer for the examples that splits
  after the whitespace following a full stop, question mark or exclamation mark.\<close>

definition example_document :: document where
  "example_document =
     \<lparr>doc_url = Some ''https://segment.com/docs/sources'',
      doc_title = Some ''Sources Overview'',
      doc_content = Some ''Hello. Goodbye now.'',
      doc_headings = Some [\<lparr>h_level = Some 1, h_text = Some ''Sources''\<rparr>,
                           \<lparr>h_level = Some 2, h_text = Some ''Setup''\<rparr>],
      doc_platform = Some ''segment''\<rparr>"

definition example_tokenizer :: "string \<Rightarrow> string list" where
  "example_tokenizer t = re_split sentence_break_regex t"

text \<open>The first 100 characters of a result's content, the key of the deduplication.\<close>

definition content_key :: "result \<Rightarrow> string" where
  "content_key r = take 100 (content r)"

text \<open>The deduplication loop without its accumulator.\<close>

fun keep_new :: "(string \<Rightarrow> int) \<Rightarrow> result list \<Rightarrow> int set \<Rightarrow> result list" where
  "keep_new h [] seen = []"
| "keep_new h (r # rs) seen =
     (if h (content_key r) \<notin> seen then r # keep_new h rs (insert (h (content_key r)) seen)
      else keep_new h rs seen)"

text \<open>A result list in descending order of final score, as \<open>rank_results\<close> returns it.\<close>

definition descending :: "result list \<Rightarrow> bool" where
  "descending rs = sorted_wrt (\<lambda>a b. get_final_score b \<le> get_final_score a) rs"

text \<open>A scored result with a given content and final score, and a hash for the
  examples: the length of the string.\<close>

definition scored :: "string \<Rightarrow> real \<Rightarrow> result" where
  "scored c s = \<lparr>content = c, metadata = segment_metadata, rid = ''x'', distance = None,
      content_score = Some 0, metadata_score = Some 0, final_score = Some s\<rparr>"

definition length_hash :: "string \<Rightarrow> int" where
  "length_hash s = int (length s)"

text \<open>The block of trailing sentences of a closed chunk that opens the next chunk.\<close>

definition overlap_block :: "int \<Rightarrow> string list \<Rightarrow> string list" where
  "overlap_block chunk_overlap c = fst (overlap_of chunk_overlap c)"




text \<open>The total length of a block of sentences, as the code counts it: the sum of
  the lengths of the sentences.\<close>

definition total_length :: "string list \<Rightarrow> int" where
  "total_length ss = int (sum_list (map length ss))"


text \<open>The section one platform of the result dictionary contributes to the
  comparison text: nothing for a platform without results, otherwise the platform
  name, the content of the top result cut after 300 characters, and its source.\<close>

fun section_of :: "string \<times> result list \<Rightarrow> string" where
  "section_of (c, []) = []"
| "section_of (c, top_result # others) =
     ''**'' @ capitalize c @ ''**:'' @ nl
     @ (if 300 < length (content top_result) then take 300 (content top_result) @ ''...''
        else content top_result)
     @ nl @ nl @ format_source_reference (metadata top_result) @ nl @ nl"

definition comparison_header :: "string \<Rightarrow> string" where
  "comparison_header feat =
     ''Here'' @ apostrophe @ ''s a comparison of how different CDPs handle '' @ feat @ '':''
     @ nl @ nl"

definition comparison_summary :: "string \<Rightarrow> (string \<times> result list) list \<Rightarrow> string" where
  "comparison_summary feat results =
     nl @ ''**Summary**:'' @ nl @ ''Each CDP platform has its own approach to '' @ feat @ ''. ''
     @ (if 2 \<le> length (filter (\<lambda>(c, cdp_results). cdp_results \<noteq> []) results)
        then ''Consider your specific requirements when choosing between them.''
        else ''I could only find detailed information for some of the platforms. Consider checking the official documentation for more details.'')"

text \<open>A comparison response with results for segment and none for lytics.\<close>

definition tracking_result :: result where
  "tracking_result =
     \<lparr>content = ''Segment tracks events.'', metadata = segment_metadata, rid = ''segment_0'',
      distance = Some 0.2, content_score = Some 1, metadata_score = Some 0,
      final_score = Some 0.7\<rparr>"

definition tracking_analysis :: analysis where
  "tracking_analysis =
     \<lparr>cdp = None, query_type = Some ''comparison'', is_relevant = None,
      cdps = Some [''segment'', ''lytics''], feature = Some (Some ''tracking'')\<rparr>"

definition example_comparison :: comparison_response where
  "example_comparison =
     \<lparr>cr_type = Some ''comparison'', cr_message = None,
      cr_results = Some [(''segment'', [tracking_result]), (''lytics'', [])],
      cr_analysis = Some tracking_analysis\<rparr>"

text \<open>A how-to response whose top result lists three numbered steps, one per line,
  and the same steps on one line.\<close>

definition steps_on_lines :: string where
  "steps_on_lines = ''1. Open settings'' @ nl @ ''2. Add source'' @ nl @ ''3. Save''"

definition steps_on_one_line :: string where
  "steps_on_one_line = ''1. Open settings 2. Add source 3. Save''"

definition how_to_analysis :: analysis where
  "how_to_analysis =
     \<lparr>cdp = Some ''segment'', query_type = Some ''how-to'', is_relevant = Some True,
      cdps = None, feature = None\<rparr>"

definition how_to_response :: "string \<Rightarrow> query_response" where
  "how_to_response c =
     \<lparr>qr_type = Some ''answer'', qr_message = None,
      qr_results = Some [\<lparr>content = c, metadata = segment_metadata, rid = ''segment_0'',
                          distance = Some 0.2, content_score = Some 1,
                          metadata_score = Some 0, final_score = Some 0.7\<rparr>],
      qr_analysis = Some how_to_analysis\<rparr>"

definition segment_source_line :: string where
  "segment_source_line = ''Source: Segment - [Sources](https://segment.com/docs/sources)''"

text \<open>The level and the text of a heading, with the defaults of
  \<open>heading.get("level", 0)\<close> and \<open>heading.get("text", "")\<close>.\<close>

definition heading_level :: "heading \<Rightarrow> int" where
  "heading_level h = (case h_level h of None \<Rightarrow> 0 | Some l \<Rightarrow> l)"

definition heading_text :: "heading \<Rightarrow> string" where
  "heading_text h = (case h_text h of None \<Rightarrow> [] | Some t \<Rightarrow> t)"

text \<open>
  The heading hierarchy as the specification words it: walking the headings in
  document order with a stack, a heading at level \<open>L\<close> cuts the stack to length
  \<open>L - 1\<close> and pushes its text, and yields the stack joined with \<open>" > "\<close>.
\<close>

fun spec_walk :: "heading list \<Rightarrow> string list \<Rightarrow> string list" where
  "spec_walk [] stack = []"
| "spec_walk (h # hs) stack =
     (let st = take (nat (heading_level h - 1)) stack @ [heading_text h]
      in join '' > '' st # spec_walk hs st)"

text \<open>A breadcrumb of a heading: a path of heading texts joined with \<open>" > "\<close>
  whose last element is the text of that heading.\<close>

definition ends_with_heading :: "heading \<Rightarrow> string \<Rightarrow> bool" where
  "ends_with_heading h b = (\<exists>path. b = join '' > '' (path @ [heading_text h]))"

section \<open>Substring tests and pattern search\<close>

lemma contains_iff_suffix: "contains s t \<longleftrightarrow> (\<exists>s'. suffix s' s \<and> prefix t s')"
proof (induction s)
  case Nil
  then show ?case by auto
next
  case (Cons c s)
  show ?case
  proof
    assume "contains (c # s) t"
    then consider "prefix t (c # s)" | "contains s t" by auto
    then show "\<exists>s'. suffix s' (c # s) \<and> prefix t s'"
    proof cases
      case 1
      then show ?thesis by (intro exI [of _ "c # s"]) simp
    next
      case 2
      with Cons.IH obtain s' where "suffix s' s" "prefix t s'" by blast
      then show ?thesis by (intro exI [of _ s']) (simp add: suffix_Cons)
    qed
  next
    assume "\<exists>s'. suffix s' (c # s) \<and> prefix t s'"
    then obtain s' where s': "suffix s' (c # s)" "prefix t s'" by blast
    then show "contains (c # s) t"
      using Cons.IH by (auto simp: suffix_Cons)
  qed
qed

lemma search_at_iff:
  "search_at r subj s \<noteq> None \<longleftrightarrow> (\<exists>s'. suffix s' s \<and> rmatch r subj (s', []) \<noteq> [])"
proof (induction s)
  case Nil
  then show ?case by (auto split: list.splits)
next
  case (Cons c s)
  show ?case
  proof (cases "rmatch r subj (c # s, [])")
    case Nil
    then have "search_at r subj (c # s) = search_at r subj s" by simp
    moreover have "(\<exists>s'. suffix s' (c # s) \<and> rmatch r subj (s', []) \<noteq> []) \<longleftrightarrow>
                   (\<exists>s'. suffix s' s \<and> rmatch r subj (s', []) \<noteq> [])"
      using Nil by (auto simp: suffix_Cons)
    ultimately show ?thesis using Cons.IH by simp
  next
    case (Cons m ms)
    then have "search_at r subj (c # s) \<noteq> None" by simp
    moreover have "\<exists>s'. suffix s' (c # s) \<and> rmatch r subj (s', []) \<noteq> []"
      using Cons by (intro exI [of _ "c # s"]) simp
    ultimately show ?thesis by blast
  qed
qed

lemma matches_Lit: "matches s (Lit t) \<longleftrightarrow> contains s t"
  unfolding matches_def re_search_def search_at_iff contains_iff_suffix by auto

lemma prefix_append_drop: "prefix (a @ b) s \<longleftrightarrow> prefix a s \<and> prefix b (drop (length a) s)"
  by (auto simp: prefix_def)

lemma how_to_at:
  "rmatch how_to_regex subj (s, []) \<noteq> [] \<longleftrightarrow>
     prefix ''how to'' s \<or> prefix ''how do'' s \<or> prefix ''how can'' s \<or> prefix ''how should'' s"
proof -
  have a: "prefix ''how to'' s \<longleftrightarrow> prefix ''how '' s \<and> prefix ''to'' (drop (length ''how '') s)"
    using prefix_append_drop [of "''how ''" "''to''" s] by simp
  have b: "prefix ''how do'' s \<longleftrightarrow> prefix ''how '' s \<and> prefix ''do'' (drop (length ''how '') s)"
    using prefix_append_drop [of "''how ''" "''do''" s] by simp
  have c: "prefix ''how can'' s \<longleftrightarrow> prefix ''how '' s \<and> prefix ''can'' (drop (length ''how '') s)"
    using prefix_append_drop [of "''how ''" "''can''" s] by simp
  have d: "prefix ''how should'' s \<longleftrightarrow>
             prefix ''how '' s \<and> prefix ''should'' (drop (length ''how '') s)"
    using prefix_append_drop [of "''how ''" "''should''" s] by simp
  show ?thesis
    unfolding a b c d by (auto simp: how_to_regex_def)
qed

lemma matches_how_to:
  "matches s how_to_regex \<longleftrightarrow>
     contains s ''how to'' \<or> contains s ''how do'' \<or> contains s ''how can''
     \<or> contains s ''how should''"
  unfolding matches_def re_search_def search_at_iff contains_iff_suffix how_to_at by blast

lemma rmatch_Seq_nonempty:
  "rmatch (Seq a b) subj st \<noteq> [] \<Longrightarrow> \<exists>st' \<in> set (rmatch a subj st). rmatch b subj st' \<noteq> []"
  by auto

lemma rmatch_Lit_elem:
  "st' \<in> set (rmatch (Lit t) subj (s, g)) \<Longrightarrow> prefix t s \<and> st' = (drop (length t) s, g)"
  by (auto split: if_splits)

lemma rmatch_Plus_elem:
  "st' \<in> set (rmatch (Plus c) subj (s, g)) \<Longrightarrow> \<exists>n. st' = (drop n s, g)"
  by auto

text \<open>The pattern \<open>how does .+ compare\<close> matches only where \<open>compare\<close> occurs, so
  it adds nothing to the literal pattern \<open>compare\<close> of the same list.\<close>

lemma how_does_compare_at:
  assumes "rmatch (Seq (Lit ''how does '') (Seq (Plus Dot) (Lit '' compare''))) subj (s, []) \<noteq> []"
  shows "\<exists>n. prefix ''compare'' (drop n s)"
proof -
  from rmatch_Seq_nonempty [OF assms] obtain st1
    where st1: "st1 \<in> set (rmatch (Lit ''how does '') subj (s, []))"
      and r1: "rmatch (Seq (Plus Dot) (Lit '' compare'')) subj st1 \<noteq> []"
    by blast
  from rmatch_Lit_elem [OF st1] obtain k where k: "st1 = (drop k s, [])" by blast
  from rmatch_Seq_nonempty [OF r1] obtain st2
    where st2: "st2 \<in> set (rmatch (Plus Dot) subj st1)"
      and r2: "rmatch (Lit '' compare'') subj st2 \<noteq> []"
    by blast
  from rmatch_Plus_elem [OF st2 [unfolded k]] obtain n where n: "st2 = (drop n (drop k s), [])"
    by blast
  from r2 have "prefix ('' '' @ ''compare'') (drop n (drop k s))"
    unfolding n by (simp split: if_splits)
  then have "prefix ''compare'' (drop (length '' '') (drop n (drop k s)))"
    unfolding prefix_append_drop by blast
  then show ?thesis by (metis drop_drop)
qed

lemma matches_how_does_compare:
  assumes "matches s (Seq (Lit ''how does '') (Seq (Plus Dot) (Lit '' compare'')))"
  shows "contains s ''compare''"
proof -
  from assms obtain s' where s': "suffix s' s"
    and "rmatch (Seq (Lit ''how does '') (Seq (Plus Dot) (Lit '' compare''))) s (s', []) \<noteq> []"
    unfolding matches_def re_search_def search_at_iff by blast
  then obtain n where "prefix ''compare'' (drop n s')" using how_does_compare_at by blast
  moreover have "suffix (drop n s') s" using s' by (meson suffix_drop suffix_order.trans)
  ultimately show ?thesis unfolding contains_iff_suffix by blast
qed

lemma comparison_patterns_iff:
  "list_ex (matches s) comparison_patterns \<longleftrightarrow> list_ex (contains s) spec_comparison_terms"
  using matches_how_does_compare [of s]
  by (auto simp: comparison_patterns_def spec_comparison_terms_def matches_Lit)

lemma how_to_patterns_iff:
  "list_ex (matches s) how_to_patterns \<longleftrightarrow> list_ex (contains s) spec_how_to_terms"
  by (auto simp: how_to_patterns_def spec_how_to_terms_def matches_Lit matches_how_to)

section \<open>Retrieval\<close>

lemma comparison_loop_lookup:
  "map_of (fst (comparison_loop cq k cs res vs)) c =
     (if c \<in> set cs then Some (filter within_threshold (answer vs cq k (Some c)))
      else map_of res c)"
proof (induction cs arbitrary: res vs)
  case Nil
  then show ?case by simp
next
  case (Cons a cs)
  have ans: "answer (vs\<lparr>calls := calls vs @ [(cq, k, Some a)]\<rparr>) = answer vs" by simp
  show ?case
    by (simp add: vs_query_def Cons.IH ans update_conv' del: vector_store.simps)
qed

lemma comparison_loop_calls:
  "calls (snd (comparison_loop cq k cs res vs)) = calls vs @ map (\<lambda>c. (cq, k, Some c)) cs"
  by (induction cs arbitrary: res vs) (simp_all add: vs_query_def)

lemma within_threshold_iff:
  "within_threshold r \<longleftrightarrow>
     (distance r = None \<or> (\<exists>d. distance r = Some d \<and> d < SIMILARITY_THRESHOLD))"
  by (simp add: within_threshold_def split: option.splits)

lemma retrieve_for_comparison_unfold:
  "retrieve_for_comparison vs q k =
     (case extract_feature_for_comparison q of
        Inl e \<Rightarrow> Inl e
      | Inr feat \<Rightarrow>
          Inr ((fst (comparison_loop (query_for feat q) k (platforms_of q) [] vs),
                \<lparr>cdp = None, query_type = Some ''comparison'', is_relevant = None,
                   cdps = Some (platforms_of q), feature = Some feat\<rparr>),
               snd (comparison_loop (query_for feat q) k (platforms_of q) [] vs)))"
  by (simp add: retrieve_for_comparison_def Let_def platforms_of_def query_for_def
           case_prod_beta split: sum.splits)

lemma no_term_no_cdp:
  assumes "\<not> (\<exists>t \<in> set relevant_terms. contains (lower q) t)"
  shows "extract_cdp_from_query q = None"
proof -
  have "set cdp_names \<subseteq> set relevant_terms"
    by (simp add: cdp_names_def relevant_terms_def)
  with assms have "\<not> (\<exists>t \<in> set cdp_names. contains (lower q) t)" by blast
  then show ?thesis by (simp add: extract_cdp_from_query_def find_None_iff)
qed

lemma relevant_segment_vs_lytics: "is_relevant_query ''segment vs lytics''"
  by code_simp

lemma feature_segment_vs_lytics: "extract_feature_for_comparison ''segment vs lytics'' = Inr None"
  by code_simp

lemma platforms_segment_vs_lytics: "platforms_of ''segment vs lytics'' = [''segment'', ''lytics'']"
  by code_simp

lemma weather_irrelevant:
  "\<not> (\<exists>t \<in> set relevant_terms. contains (lower ''What is the weather today'') t)"
  by code_simp

lemma sources_relevant:
  "\<exists>t \<in> set relevant_terms. contains (lower ''How do I add a source'') t"
  by code_simp

lemma both_kinds_of_terms:
  "list_ex (contains (lower ''How to compare Segment vs Lytics'')) spec_comparison_terms
   \<and> list_ex (contains (lower ''How to compare Segment vs Lytics'')) spec_how_to_terms"
  by code_simp

section \<open>Chunk metadata\<close>

lemma hierarchy_loop_length:
  "length (hierarchy_loop hs l cur acc) = length acc + length hs"
  by (induction hs arbitrary: l cur acc) (simp_all add: Let_def)

lemma hierarchy_loop_step:
  "hierarchy_loop (h # hs) l cur acc =
     hierarchy_loop hs (heading_level h)
       ((if heading_level h \<le> l then slice_to cur (heading_level h - 1) else cur)
        @ [heading_text h])
       (acc @ [join '' > '' ((if heading_level h \<le> l then slice_to cur (heading_level h - 1)
                              else cur) @ [heading_text h])])"
  by (simp add: heading_level_def heading_text_def Let_def)

text \<open>Every heading yields one breadcrumb, and it ends with the heading's text.\<close>

lemma hierarchy_loop_ends:
  "\<exists>rest. hierarchy_loop hs l cur acc = acc @ rest \<and> list_all2 ends_with_heading hs rest"
proof (induction hs arbitrary: l cur acc)
  case Nil
  then show ?case by simp
next
  case (Cons h hs)
  define hier where
    "hier = (if heading_level h \<le> l then slice_to cur (heading_level h - 1) else cur)
            @ [heading_text h]"
  from Cons.IH [of "heading_level h" hier "acc @ [join '' > '' hier]"] obtain rest
    where r: "hierarchy_loop hs (heading_level h) hier (acc @ [join '' > '' hier])
                = (acc @ [join '' > '' hier]) @ rest"
      and a: "list_all2 ends_with_heading hs rest"
    by blast
  have e: "ends_with_heading h (join '' > '' hier)"
    unfolding ends_with_heading_def hier_def by blast
  have "hierarchy_loop (h # hs) l cur acc
          = hierarchy_loop hs (heading_level h) hier (acc @ [join '' > '' hier])"
    unfolding hier_def by (rule hierarchy_loop_step)
  with r have "hierarchy_loop (h # hs) l cur acc = acc @ (join '' > '' hier # rest)"
    by simp
  with a e show ?case by auto
qed

text \<open>For headings of level 1 and above, as the scraper produces them from the
  tags \<open>h1\<close> to \<open>h6\<close>, the loop computes the hierarchy of the specification: the
  stack is never longer than the current level, so skipping the cut for a deeper
  heading changes nothing.\<close>

lemma hierarchy_loop_spec:
  assumes "\<forall>h \<in> set hs. 1 \<le> heading_level h" "int (length cur) \<le> l"
  shows "hierarchy_loop hs l cur acc = acc @ spec_walk hs cur"
  using assms
proof (induction hs arbitrary: l cur acc)
  case Nil
  then show ?case by simp
next
  case (Cons h hs)
  have lv: "1 \<le> heading_level h" and rest: "\<forall>h \<in> set hs. 1 \<le> heading_level h"
    using Cons.prems(1) by simp_all
  define st where "st = take (nat (heading_level h - 1)) cur @ [heading_text h]"
  have same: "(if heading_level h \<le> l then slice_to cur (heading_level h - 1) else cur)
              @ [heading_text h] = st"
  proof (cases "heading_level h \<le> l")
    case True
    then show ?thesis using lv by (simp add: st_def slice_to_def)
  next
    case False
    then have "length cur \<le> nat (heading_level h - 1)" using Cons.prems(2) by linarith
    then show ?thesis using False by (simp add: st_def)
  qed
  have len: "int (length st) \<le> heading_level h" using lv by (simp add: st_def)
  have "hierarchy_loop (h # hs) l cur acc
          = hierarchy_loop hs (heading_level h) st (acc @ [join '' > '' st])"
    unfolding hierarchy_loop_step same ..
  also have "\<dots> = (acc @ [join '' > '' st]) @ spec_walk hs st"
    by (rule Cons.IH [OF rest len])
  finally show ?case by (simp add: Let_def st_def)
qed

lemma example_levels:
  "\<forall>h \<in> set (case doc_headings example_document of None \<Rightarrow> [] | Some hs \<Rightarrow> hs). 1 \<le> heading_level h"
  by (simp add: example_document_def heading_level_def)

lemma example_breadcrumbs:
  "spec_walk (case doc_headings example_document of None \<Rightarrow> [] | Some hs \<Rightarrow> hs) []
     = [''Sources'', ''Sources > Setup'']"
  by code_simp

lemma example_chunks:
  "map chunk_content (prepare_document_chunks example_tokenizer example_document 15 6)
     = [''Hello.'', ''Hello. Goodbye now.'']"
  by code_simp

section \<open>Ranking and filtering\<close>

lemma dedup_loop_keep_new: "dedup_loop h rs seen acc = acc @ keep_new h rs seen"
  by (induction rs arbitrary: seen acc) (simp_all add: Let_def content_key_def)

lemma filter_results_keep_new:
  "filter_results h rs = keep_new h (filter (\<lambda>r. 0.3 \<le> get_final_score r) rs) {}"
  by (simp add: filter_results_def dedup_loop_keep_new)

lemma keep_new_subset: "r \<in> set (keep_new h rs seen) \<Longrightarrow> r \<in> set rs \<and> h (content_key r) \<notin> seen"
  by (induction rs arbitrary: seen) (auto split: if_splits)

lemma keep_new_distinct: "distinct (map (\<lambda>r. h (content_key r)) (keep_new h rs seen))"
proof (induction rs arbitrary: seen)
  case Nil
  then show ?case by simp
next
  case (Cons x rs)
  show ?case
  proof (cases "h (content_key x) \<in> seen")
    case True
    then show ?thesis using Cons.IH by simp
  next
    case False
    have "h (content_key x) \<notin> (\<lambda>r. h (content_key r)) ` set (keep_new h rs (insert (h (content_key x)) seen))"
    proof
      assume "h (content_key x) \<in> (\<lambda>r. h (content_key r)) ` set (keep_new h rs (insert (h (content_key x)) seen))"
      then obtain r where r: "r \<in> set (keep_new h rs (insert (h (content_key x)) seen))"
        and e: "h (content_key r) = h (content_key x)" by force
      from keep_new_subset [OF r] have "h (content_key r) \<notin> insert (h (content_key x)) seen" by simp
      with e show False by simp
    qed
    with False show ?thesis using Cons.IH by simp
  qed
qed

lemma keep_new_distinct_keys: "distinct (map content_key (keep_new h rs seen))"
proof -
  have "distinct (map h (map content_key (keep_new h rs seen)))"
    using keep_new_distinct [of h rs seen] by (simp add: comp_def)
  then show ?thesis by (auto simp: distinct_map dest: inj_on_imageI2)
qed

lemma keep_new_first:
  assumes "descending rs" "r \<in> set (keep_new h rs seen)" "r' \<in> set rs"
    and "h (content_key r') = h (content_key r)"
  shows "get_final_score r' \<le> get_final_score r"
  using assms
proof (induction rs arbitrary: seen)
  case Nil
  then show ?case by simp
next
  case (Cons x rs)
  have d: "descending rs" and xs: "\<forall>y \<in> set rs. get_final_score y \<le> get_final_score x"
    using Cons.prems(1) by (simp_all add: descending_def)
  show ?case
  proof (cases "r \<in> set (keep_new h rs (if h (content_key x) \<notin> seen then insert (h (content_key x)) seen else seen))")
    case True
    then have "h (content_key r) \<noteq> h (content_key x) \<or> h (content_key x) \<in> seen"
      using keep_new_subset by (auto split: if_splits)
    moreover have "h (content_key r) \<notin> seen"
      using True keep_new_subset by (auto split: if_splits)
    ultimately have "r' \<noteq> x" using Cons.prems(4) by auto
    then have "r' \<in> set rs" using Cons.prems(3) by simp
    with Cons.IH [OF d True] Cons.prems(4) show ?thesis by simp
  next
    case False
    then have "r = x" using Cons.prems(2) by (auto split: if_splits)
    then show ?thesis using Cons.prems(3) xs by auto
  qed
qed

lemma keep_new_covers:
  "r' \<in> set rs \<Longrightarrow>
     h (content_key r') \<in> seen \<or> (\<exists>r \<in> set (keep_new h rs seen). h (content_key r) = h (content_key r'))"
proof (induction rs arbitrary: seen)
  case Nil
  then show ?case by simp
next
  case (Cons x rs)
  show ?case
  proof (cases "r' = x")
    case True
    then show ?thesis by auto
  next
    case False
    then have "r' \<in> set rs" using Cons.prems by simp
    from Cons.IH [OF this, of "if h (content_key x) \<notin> seen then insert (h (content_key x)) seen else seen"]
    show ?thesis by (auto split: if_splits)
  qed
qed

lemma descending_filter: "descending rs \<Longrightarrow> descending (filter P rs)"
  by (simp add: descending_def sorted_wrt_filter)

lemma rank_results_descending: "descending (rank_results rs q)"
proof -
  have "sorted (map (\<lambda>x. - get_final_score x) (sort_key (\<lambda>x. - get_final_score x) xs))" for xs :: "result list"
    by (rule sorted_sort_key)
  then show ?thesis
    by (simp add: rank_results_def descending_def sorted_map)
qed

lemma example_descending:
  "descending [scored ''Add a source'' 0.9, scored ''Add a source'' 0.5, scored ''Other'' 0.2]"
  by (simp add: descending_def scored_def get_final_score_def)

lemma example_filter:
  "filter_results length_hash
     [scored ''Add a source'' 0.9, scored ''Add a source'' 0.5, scored ''Other'' 0.2]
   = [scored ''Add a source'' 0.9]"
  by (simp add: filter_results_def scored_def get_final_score_def length_hash_def Let_def)

section \<open>Chunking\<close>



















section \<open>Response assembly and examples\<close>

lemma sections_loop_concat: "sections_loop results acc = acc @ concat (map section_of results)"
  by (induction results acc rule: sections_loop.induct) (simp_all add: Let_def)

lemma update_fresh_key: "k \<notin> fst ` set al \<Longrightarrow> AList.update k v al = al @ [(k, v)]"
  by (induction al) auto

lemma process_loop_map:
  "distinct (map fst (acc @ xs)) \<Longrightarrow>
     process_loop h rq xs acc
       = acc @ map (\<lambda>(c, rs). (c, filter_results h (rank_results rs rq))) xs"
proof (induction xs arbitrary: acc)
  case Nil
  then show ?case by simp
next
  case (Cons x xs)
  obtain c rs where x: "x = (c, rs)" by (cases x)
  have k: "c \<notin> fst ` set acc" using Cons.prems by (auto simp: x)
  have d: "distinct (map fst ((acc @ [(c, filter_results h (rank_results rs rq))]) @ xs))"
    using Cons.prems by (auto simp: x)
  show ?case
    using Cons.IH [OF d] by (simp add: x update_fresh_key [OF k])
qed

lemma example_comparison_text:
  "resp_content (generate_comparison_response example_comparison)
     = ''Here'' @ apostrophe @ ''s a comparison of how different CDPs handle tracking:'' @ nl @ nl
       @ ''**Segment**:'' @ nl @ ''Segment tracks events.'' @ nl @ nl
       @ segment_source_line @ nl @ nl
       @ nl @ ''**Summary**:'' @ nl @ ''Each CDP platform has its own approach to tracking. ''
       @ ''I could only find detailed information for some of the platforms. Consider checking the official documentation for more details.''"
  by code_simp

lemma one_line_steps:
  "extract_steps steps_on_one_line = [''Open settings'', ''Add source'', ''Save'']
   \<and> resp_content (generate_regular_response (how_to_response steps_on_one_line))
       = ''Here'' @ apostrophe @ ''s how to do that in Segment:'' @ nl @ nl
         @ ''1. Open settings'' @ nl @ ''2. Add source'' @ nl @ ''3. Save''
         @ nl @ nl @ segment_source_line"
  by code_simp


lemma example_overlap_block: "overlap_block 6 [''Hello.''] = [''Hello.'']"
  by code_simp

lemma overlap_text_may_exceed:
  "overlap_block 4 [''aa'', ''bb''] = [''aa'', ''bb'']
   \<and> total_length [''aa'', ''bb''] = 4 \<and> length (join '' '' [''aa'', ''bb'']) = 5"
  by code_simp

lemma capitalize_segment: "capitalize ''segment'' = ''Segment''"
  by code_simp

lemma step_lines_three:
  "step_lines [s1, s2, s3] = [''1. '' @ s1, ''2. '' @ s2, ''3. '' @ s3]"
proof -
  have "str_nat (Suc 0) = ''1''" "str_nat (Suc (Suc 0)) = ''2''"
    "str_nat (Suc (Suc (Suc 0))) = ''3''"
    by code_simp+
  then show ?thesis by (simp add: step_lines_def enumerate_eq_zip upt_rec)
qed

lemma segment_source: "format_source_reference segment_metadata = segment_source_line"
  by code_simp

text \<open>Whenever the step extraction finds three steps, the how-to answer is the
  prefix, the three numbered lines in the order found, and the source line.\<close>

lemma three_steps_rendered:
  assumes "extract_steps c = [s1, s2, s3]"
  shows "resp_content (generate_regular_response (how_to_response c))
           = ''Here'' @ apostrophe @ ''s how to do that in Segment:'' @ nl @ nl
             @ ''1. '' @ s1 @ nl @ ''2. '' @ s2 @ nl @ ''3. '' @ s3
             @ nl @ nl @ segment_source_line"
  using assms
  by (simp add: generate_regular_response_def how_to_response_def how_to_analysis_def
        text_response_def Let_def step_lines_three capitalize_segment segment_source
        del: capitalize.simps)

section \<open>Claims\<close>

text \<open>
  C1, as the code has it. For a relevant query, \<open>retrieve\<close> returns exactly those
  results of the index whose distance is \<open>None\<close> or strictly below
  \<open>SIMILARITY_THRESHOLD\<close>; a result whose distance equals or exceeds the threshold
  is dropped and a result without distance is always kept. Whenever
  \<open>retrieve_for_comparison\<close> returns, each queried platform is mapped to the
  index's answer for that platform alone, cut off in the same way.
\<close>

theorem C1_cutoff:
  "(is_relevant_query q \<longrightarrow>
      fst (fst (retrieve vs q k)) =
        filter (\<lambda>r. distance r = None \<or> (\<exists>d. distance r = Some d \<and> d < SIMILARITY_THRESHOLD))
               (answer vs q k (extract_cdp_from_query q)))
   \<and> (retrieve_for_comparison vs q k = Inr ((res, an), vs') \<longrightarrow>
        (\<exists>feat. cdps an = Some (platforms_of q) \<and> feature an = Some feat \<and> platforms_of q \<noteq> []
           \<and> (\<forall>c \<in> set (platforms_of q). map_of res c =
                 Some (filter (\<lambda>r. distance r = None
                                    \<or> (\<exists>d. distance r = Some d \<and> d < SIMILARITY_THRESHOLD))
                        (answer vs (query_for feat q) k (Some c))))))"
proof (intro conjI impI)
  assume "is_relevant_query q"
  then show "fst (fst (retrieve vs q k)) =
        filter (\<lambda>r. distance r = None \<or> (\<exists>d. distance r = Some d \<and> d < SIMILARITY_THRESHOLD))
               (answer vs q k (extract_cdp_from_query q))"
    by (simp add: retrieve_def vs_query_def Let_def within_threshold_iff [abs_def])
next
  assume a: "retrieve_for_comparison vs q k = Inr ((res, an), vs')"
  let ?keep = "\<lambda>r. distance r = None \<or> (\<exists>d. distance r = Some d \<and> d < SIMILARITY_THRESHOLD)"
  have k: "within_threshold = ?keep"
    by (rule ext) (simp add: within_threshold_iff)
  from a obtain feat where
    an: "an = \<lparr>cdp = None, query_type = Some ''comparison'', is_relevant = None,
               cdps = Some (platforms_of q), feature = Some feat\<rparr>"
    and res: "res = fst (comparison_loop (query_for feat q) k (platforms_of q) [] vs)"
    unfolding retrieve_for_comparison_unfold by (auto split: sum.splits)
  have "cdps an = Some (platforms_of q)" "feature an = Some feat" using an by simp_all
  moreover have "platforms_of q \<noteq> []" by (simp add: platforms_of_def)
  moreover have "\<forall>c \<in> set (platforms_of q). map_of res c =
       Some (filter ?keep (answer vs (query_for feat q) k (Some c)))"
    unfolding res comparison_loop_lookup k [symmetric] by simp
  ultimately show "\<exists>feat. cdps an = Some (platforms_of q) \<and> feature an = Some feat
           \<and> platforms_of q \<noteq> []
           \<and> (\<forall>c \<in> set (platforms_of q). map_of res c =
                 Some (filter ?keep (answer vs (query_for feat q) k (Some c))))"
    by blast
qed

text \<open>
  The index answers the relevant query \<open>segment vs lytics\<close> with one result at
  distance 0.7 for every platform: both retrievers drop it.
\<close>

theorem C1_cutoff_witness:
  "is_relevant_query ''segment vs lytics''
   \<and> fst (fst (retrieve store_at_threshold ''segment vs lytics'' 3)) = []
   \<and> (\<exists>res an vs'. retrieve_for_comparison store_at_threshold ''segment vs lytics'' 3
                       = Inr ((res, an), vs')
          \<and> map_of res ''lytics'' = Some [])"
proof -
  define res where
    "res = fst (comparison_loop ''segment vs lytics'' 3 [''segment'', ''lytics''] []
                  store_at_threshold)"
  define vs' where
    "vs' = snd (comparison_loop ''segment vs lytics'' 3 [''segment'', ''lytics''] []
                  store_at_threshold)"
  define an where
    "an = \<lparr>cdp = None, query_type = Some ''comparison'', is_relevant = None,
           cdps = Some [''segment'', ''lytics''], feature = Some None\<rparr>"
  have e: "retrieve_for_comparison store_at_threshold ''segment vs lytics'' 3
             = Inr ((res, an), vs')"
    by (simp add: retrieve_for_comparison_unfold feature_segment_vs_lytics
          platforms_segment_vs_lytics query_for_def res_def vs'_def an_def)
  have a: "answer store_at_threshold = (\<lambda>q k f. [result_at_threshold])"
    by (simp add: store_at_threshold_def)
  from C1_cutoff [where q = "''segment vs lytics''" and vs = store_at_threshold and k = 3
                    and res = res and an = an and vs' = vs']
  have "fst (fst (retrieve store_at_threshold ''segment vs lytics'' 3)) = []"
    and "map_of res ''lytics'' = Some []"
    using e relevant_segment_vs_lytics
    by (simp_all add: a result_at_threshold_def SIMILARITY_THRESHOLD_def an_def
          platforms_segment_vs_lytics)
  with e relevant_segment_vs_lytics show ?thesis by blast
qed

text \<open>
  C1 as stated fails at the threshold itself: the index returns one result whose
  distance is 0.7, which does not exceed \<open>SIMILARITY_THRESHOLD\<close>, and \<open>retrieve\<close>
  drops it.
\<close>

theorem C1_counterexample:
  "is_relevant_query ''segment vs lytics''
   \<and> answer store_at_threshold ''segment vs lytics'' 3
        (extract_cdp_from_query ''segment vs lytics'') = [result_at_threshold]
   \<and> distance result_at_threshold = Some SIMILARITY_THRESHOLD
   \<and> \<not> SIMILARITY_THRESHOLD < SIMILARITY_THRESHOLD
   \<and> fst (fst (retrieve store_at_threshold ''segment vs lytics'' 3)) = []"
  using relevant_segment_vs_lytics
  by (simp add: retrieve_def vs_query_def Let_def store_at_threshold_def
        result_at_threshold_def within_threshold_def SIMILARITY_THRESHOLD_def)

text \<open>
  C2. The final score is \<open>0.5 * distance_score + 0.3 * content_score + 0.2 *
  metadata_score\<close> with \<open>distance_score = 1\<close> for a missing distance and
  \<open>1 - min 1 distance\<close> otherwise; distance 0 with both scores 1 gives 1; a result
  without distance never scores below the same result at distance 0; and every
  result that \<open>rank_results\<close> returns carries the final score computed by this
  formula from its own distance and its two scores.
\<close>

theorem C2_final_score:
  "calculate_final_score d c m =
     0.5 * (case d of None \<Rightarrow> 1 | Some x \<Rightarrow> 1 - min 1 x) + 0.3 * c + 0.2 * m
   \<and> calculate_final_score (Some 0) 1 1 = 1
   \<and> calculate_final_score (Some 0) c m \<le> calculate_final_score None c m
   \<and> (\<forall>r \<in> set (rank_results results query).
        \<exists>cs ms. content_score r = Some cs \<and> metadata_score r = Some ms
          \<and> final_score r = Some (calculate_final_score (distance r) cs ms))"
  by (auto simp: calculate_final_score_def rank_results_def score_result_def Let_def)

text \<open>Ranking one result for the query \<open>segment sources\<close>.\<close>

theorem C2_final_score_witness:
  "rank_results [result_at_threshold] ''segment sources''
     = [score_result ''segment sources'' result_at_threshold]
   \<and> (\<exists>cs ms. content_score (score_result ''segment sources'' result_at_threshold) = Some cs
         \<and> metadata_score (score_result ''segment sources'' result_at_threshold) = Some ms
         \<and> final_score (score_result ''segment sources'' result_at_threshold)
             = Some (calculate_final_score
                       (distance (score_result ''segment sources'' result_at_threshold)) cs ms))"
proof -
  have r: "rank_results [result_at_threshold] ''segment sources''
             = [score_result ''segment sources'' result_at_threshold]"
    by (simp add: rank_results_def)
  from C2_final_score [of None 0 0 "[result_at_threshold]" "''segment sources''"]
  have "\<forall>r \<in> set (rank_results [result_at_threshold] ''segment sources'').
          \<exists>cs ms. content_score r = Some cs \<and> metadata_score r = Some ms
            \<and> final_score r = Some (calculate_final_score (distance r) cs ms)"
    by (rule conjunct2 [OF conjunct2 [OF conjunct2]])
  then show ?thesis unfolding r by simp
qed

text \<open>
  C4. A query whose lower-cased text contains no term of the relevance vocabulary
  gets the empty result list and an analysis marked not relevant, and the store,
  with its record of index queries, is returned unchanged; a query that contains a
  term is marked relevant.
\<close>

theorem C4_relevance_gate:
  "(\<not> (\<exists>t \<in> set relevant_terms. contains (lower q) t) \<longrightarrow>
      retrieve vs q k = (([], irrelevant_analysis q), vs))
   \<and> ((\<exists>t \<in> set relevant_terms. contains (lower q) t) \<longrightarrow>
        is_relevant (snd (fst (retrieve vs q k))) = Some True)"
proof (intro conjI impI)
  assume a: "\<not> (\<exists>t \<in> set relevant_terms. contains (lower q) t)"
  then have "\<not> is_relevant_query q" by (simp add: is_relevant_query_def list_ex_iff)
  then show "retrieve vs q k = (([], irrelevant_analysis q), vs)"
    by (simp add: retrieve_def Let_def irrelevant_analysis_def no_term_no_cdp [OF a])
next
  assume "\<exists>t \<in> set relevant_terms. contains (lower q) t"
  then have "is_relevant_query q" by (simp add: is_relevant_query_def list_ex_iff)
  then show "is_relevant (snd (fst (retrieve vs q k))) = Some True"
    by (simp add: retrieve_def Let_def case_prod_beta)
qed

theorem C4_relevance_gate_witness:
  "\<not> (\<exists>t \<in> set relevant_terms. contains (lower ''What is the weather today'') t)
   \<and> retrieve empty_store ''What is the weather today'' 5
       = (([], irrelevant_analysis ''What is the weather today''), empty_store)
   \<and> (\<exists>t \<in> set relevant_terms. contains (lower ''How do I add a source'') t)
   \<and> is_relevant (snd (fst (retrieve empty_store ''How do I add a source'' 5))) = Some True"
  using C4_relevance_gate [of "''What is the weather today''" empty_store 5]
        C4_relevance_gate [of "''How do I add a source''" empty_store 5]
        weather_irrelevant sources_relevant
  by blast

text \<open>
  C9. A query that contains a comparison term is classified as a comparison,
  whether or not it also contains a how-to term; without a comparison term a how-to
  term gives \<open>how-to\<close>; with neither the type is \<open>general\<close>. The two queries of
  the specification are classified as it says, with platforms segment and
  mparticle for the first and platform segment for the second.
\<close>

theorem C9_classification:
  "(list_ex (contains (lower q)) spec_comparison_terms \<longrightarrow> classify_query_type q = ''comparison'')
   \<and> (\<not> list_ex (contains (lower q)) spec_comparison_terms
        \<and> list_ex (contains (lower q)) spec_how_to_terms \<longrightarrow> classify_query_type q = ''how-to'')
   \<and> (\<not> list_ex (contains (lower q)) spec_comparison_terms
        \<and> \<not> list_ex (contains (lower q)) spec_how_to_terms \<longrightarrow> classify_query_type q = ''general'')
   \<and> classify_query_type ''compare segment and mparticle'' = ''comparison''
   \<and> extract_cdps_for_comparison ''compare segment and mparticle'' = [''segment'', ''mparticle'']
   \<and> classify_query_type ''how do I set up a source in segment'' = ''how-to''
   \<and> extract_cdp_from_query ''how do I set up a source in segment'' = Some ''segment''"
proof -
  have 1: "classify_query_type ''compare segment and mparticle'' = ''comparison''" by code_simp
  have 2: "extract_cdps_for_comparison ''compare segment and mparticle''
             = [''segment'', ''mparticle'']"
    by code_simp
  have 3: "classify_query_type ''how do I set up a source in segment'' = ''how-to''" by code_simp
  have 4: "extract_cdp_from_query ''how do I set up a source in segment'' = Some ''segment''"
    by code_simp
  show ?thesis
    unfolding 1 2 3 4
    by (simp add: classify_query_type_def Let_def comparison_patterns_iff how_to_patterns_iff)
qed

text \<open>A query with a how-to term and two comparison terms is a comparison.\<close>

theorem C9_classification_witness:
  "list_ex (contains (lower ''How to compare Segment vs Lytics'')) spec_comparison_terms
   \<and> list_ex (contains (lower ''How to compare Segment vs Lytics'')) spec_how_to_terms
   \<and> classify_query_type ''How to compare Segment vs Lytics'' = ''comparison''"
  using C9_classification [of "''How to compare Segment vs Lytics''"] both_kinds_of_terms
  by blast

text \<open>
  C10. Every chunk that \<open>prepare_document_chunks\<close> returns carries the metadata
  record of the whole document: the same platform, title, url, document type and
  heading hierarchy for all chunks, and none of it depends on the content. The
  heading hierarchy is the complete one of the document: one breadcrumb per
  heading, in order, each a path that ends with the text of its heading, and for
  headings of level 1 and above exactly the hierarchy the specification
  describes.
\<close>

theorem C10_shared_metadata:
  "(\<forall>c \<in> set (prepare_document_chunks tok d csize cover). chunk_metadata c = extract_metadata d)
   \<and> extract_metadata (d\<lparr>doc_content := other\<rparr>) = extract_metadata d
   \<and> md_platform (extract_metadata d)
       = Some (case doc_platform d of None \<Rightarrow> ''unknown'' | Some p \<Rightarrow> p)
   \<and> md_title (extract_metadata d) = Some (case doc_title d of None \<Rightarrow> [] | Some t \<Rightarrow> t)
   \<and> md_url (extract_metadata d) = Some (case doc_url d of None \<Rightarrow> [] | Some u \<Rightarrow> u)
   \<and> (\<exists>hh. md_heading_hierarchy (extract_metadata d) = Some hh
         \<and> length hh = length (case doc_headings d of None \<Rightarrow> [] | Some hs \<Rightarrow> hs)
         \<and> list_all2 ends_with_heading (case doc_headings d of None \<Rightarrow> [] | Some hs \<Rightarrow> hs) hh
         \<and> ((\<forall>h \<in> set (case doc_headings d of None \<Rightarrow> [] | Some hs \<Rightarrow> hs). 1 \<le> heading_level h)
               \<longrightarrow> hh = spec_walk (case doc_headings d of None \<Rightarrow> [] | Some hs \<Rightarrow> hs) []))
   \<and> (\<exists>t. md_doc_type (extract_metadata d) = Some t)"
proof -
  let ?hs = "case doc_headings d of None \<Rightarrow> [] | Some hs \<Rightarrow> hs"
  have hh: "md_heading_hierarchy (extract_metadata d) = Some (hierarchy_loop ?hs 0 [] [])"
    by (simp add: extract_metadata_def Let_def)
  have 1: "length (hierarchy_loop ?hs 0 [] []) = length ?hs"
    by (simp add: hierarchy_loop_length)
  have 2: "list_all2 ends_with_heading ?hs (hierarchy_loop ?hs 0 [] [])"
    using hierarchy_loop_ends [of ?hs 0 "[]" "[]"] by auto
  have 3: "(\<forall>h \<in> set ?hs. 1 \<le> heading_level h) \<longrightarrow> hierarchy_loop ?hs 0 [] [] = spec_walk ?hs []"
    using hierarchy_loop_spec [of ?hs "[]" 0 "[]"] by simp
  have rest: "(\<forall>c \<in> set (prepare_document_chunks tok d csize cover). chunk_metadata c = extract_metadata d)
   \<and> extract_metadata (d\<lparr>doc_content := other\<rparr>) = extract_metadata d
   \<and> md_platform (extract_metadata d)
       = Some (case doc_platform d of None \<Rightarrow> ''unknown'' | Some p \<Rightarrow> p)
   \<and> md_title (extract_metadata d) = Some (case doc_title d of None \<Rightarrow> [] | Some t \<Rightarrow> t)
   \<and> md_url (extract_metadata d) = Some (case doc_url d of None \<Rightarrow> [] | Some u \<Rightarrow> u)
   \<and> (\<exists>t. md_doc_type (extract_metadata d) = Some t)"
    by (auto simp: prepare_document_chunks_def extract_metadata_def Let_def)
  from hh 1 2 3 rest show ?thesis by blast
qed

text \<open>The example document gives two chunks, both with the document's metadata
  and the breadcrumbs of both headings.\<close>

theorem C10_shared_metadata_witness:
  "map chunk_content (prepare_document_chunks example_tokenizer example_document 15 6)
     = [''Hello.'', ''Hello. Goodbye now.'']
   \<and> map chunk_metadata (prepare_document_chunks example_tokenizer example_document 15 6)
     = [extract_metadata example_document, extract_metadata example_document]
   \<and> md_heading_hierarchy (extract_metadata example_document)
     = Some [''Sources'', ''Sources > Setup'']"
proof -
  note t = C10_shared_metadata [of example_tokenizer example_document 15 6]
  have "length (prepare_document_chunks example_tokenizer example_document 15 6) = 2"
    using example_chunks by (metis length_map length_Cons list.size(3) numeral_2_eq_2)
  then obtain a b
    where "prepare_document_chunks example_tokenizer example_document 15 6 = [a, b]"
    by (auto simp: length_Suc_conv numeral_2_eq_2)
  with t example_chunks
  have m: "map chunk_metadata (prepare_document_chunks example_tokenizer example_document 15 6)
     = [extract_metadata example_document, extract_metadata example_document]"
    by simp
  from t example_levels example_breadcrumbs
  have "md_heading_hierarchy (extract_metadata example_document)
          = Some [''Sources'', ''Sources > Setup'']"
    by auto
  with m example_chunks show ?thesis by simp
qed

text \<open>
  C3. For a list in descending order of final score and any hash function,
  \<open>filter_results\<close> returns only results of the list with final score at least
  0.3, no two of them with the same first 100 characters of content, and a kept
  result scores at least as high as every result of the list with the same first
  100 characters. When the hash does not collide on the prefixes of the list,
  every prefix that passes the threshold is represented in the output.
\<close>

theorem C3_filter_results:
  assumes "descending rs"
  shows "(\<forall>r \<in> set (filter_results h rs). r \<in> set rs \<and> 0.3 \<le> get_final_score r)
    \<and> distinct (map (\<lambda>r. take 100 (content r)) (filter_results h rs))
    \<and> (\<forall>r \<in> set (filter_results h rs). \<forall>r' \<in> set rs.
          take 100 (content r') = take 100 (content r) \<longrightarrow> get_final_score r' \<le> get_final_score r)
    \<and> (inj_on h ((\<lambda>r. take 100 (content r)) ` set rs) \<longrightarrow>
         (\<forall>r' \<in> set rs. 0.3 \<le> get_final_score r' \<longrightarrow>
            (\<exists>r \<in> set (filter_results h rs). take 100 (content r) = take 100 (content r'))))"
proof (intro conjI ballI impI)
  fix r assume "r \<in> set (filter_results h rs)"
  then have "r \<in> set (filter (\<lambda>r. 0.3 \<le> get_final_score r) rs)"
    unfolding filter_results_keep_new using keep_new_subset by blast
  then show "r \<in> set rs" "0.3 \<le> get_final_score r" by simp_all
next
  show "distinct (map (\<lambda>r. take 100 (content r)) (filter_results h rs))"
    unfolding filter_results_keep_new using keep_new_distinct_keys [of h]
    by (simp add: content_key_def [abs_def])
next
  fix r r' assume r: "r \<in> set (filter_results h rs)" and r': "r' \<in> set rs"
    and k: "take 100 (content r') = take 100 (content r)"
  let ?fs = "filter (\<lambda>r. 0.3 \<le> get_final_score r) rs"
  have rk: "r \<in> set (keep_new h ?fs {})" using r by (simp add: filter_results_keep_new)
  then have r03: "0.3 \<le> get_final_score r" using keep_new_subset [OF rk] by simp
  show "get_final_score r' \<le> get_final_score r"
  proof (cases "0.3 \<le> get_final_score r'")
    case True
    then have "r' \<in> set ?fs" using r' by simp
    moreover have "h (content_key r') = h (content_key r)" using k by (simp add: content_key_def)
    ultimately show ?thesis
      using keep_new_first [OF descending_filter [OF assms] rk] by blast
  next
    case False
    with r03 show ?thesis by simp
  qed
next
  fix r' assume inj: "inj_on h ((\<lambda>r. take 100 (content r)) ` set rs)"
    and r': "r' \<in> set rs" and s: "0.3 \<le> get_final_score r'"
  let ?fs = "filter (\<lambda>r. 0.3 \<le> get_final_score r) rs"
  have "r' \<in> set ?fs" using r' s by simp
  from keep_new_covers [OF this, of h "{}"]
  obtain r where rk: "r \<in> set (keep_new h ?fs {})" and hh: "h (content_key r) = h (content_key r')"
    by auto
  have "r \<in> set rs" using keep_new_subset [OF rk] by simp
  with inj r' hh have "take 100 (content r) = take 100 (content r')"
    by (auto simp: inj_on_def content_key_def)
  with rk show "\<exists>r \<in> set (filter_results h rs). take 100 (content r) = take 100 (content r')"
    by (auto simp: filter_results_keep_new)
qed

text \<open>Two results with the same content and scores 0.9 and 0.5, and one below
  the threshold: the result with score 0.9 is the one kept.\<close>

theorem C3_filter_results_witness:
  "descending [scored ''Add a source'' 0.9, scored ''Add a source'' 0.5, scored ''Other'' 0.2]
   \<and> filter_results length_hash
        [scored ''Add a source'' 0.9, scored ''Add a source'' 0.5, scored ''Other'' 0.2]
      = [scored ''Add a source'' 0.9]
   \<and> get_final_score (scored ''Add a source'' 0.5) \<le> get_final_score (scored ''Add a source'' 0.9)"
proof -
  let ?rs = "[scored ''Add a source'' 0.9, scored ''Add a source'' 0.5, scored ''Other'' 0.2]"
  from C3_filter_results [OF example_descending, of length_hash]
  have "\<forall>r \<in> set (filter_results length_hash ?rs). \<forall>r' \<in> set ?rs.
          take 100 (content r') = take 100 (content r) \<longrightarrow> get_final_score r' \<le> get_final_score r"
    by (rule conjunct1 [OF conjunct2 [OF conjunct2]])
  then have "get_final_score (scored ''Add a source'' 0.5) \<le> get_final_score (scored ''Add a source'' 0.9)"
    unfolding example_filter by (simp add: scored_def)
  with example_descending example_filter show ?thesis by simp
qed

text \<open>
  C5 fails on the code. The sentences \<open>Hello.\<close> (6 characters) and
  \<open>Goodbye now.\<close> (12 characters) with \<open>chunk_size = 15\<close> and
  \<open>chunk_overlap = 6\<close> give the chunks \<open>Hello.\<close> and \<open>Hello. Goodbye now.\<close>:
  the second has 19 characters and two sentences, none longer than 15. The
  overlap is carried into the next chunk without a second look at
  \<open>chunk_size\<close>. The joining spaces are not counted either: with
  \<open>chunk_size = 19\<close> and no overlap, \<open>Hello you.\<close> and \<open>Hello me.\<close> form one
  chunk of 20 characters.
\<close>

theorem C5_oversized_chunk:
  "example_tokenizer ''Hello. Goodbye now.'' = [''Hello.'', ''Goodbye now.'']
   \<and> split_text_into_chunks example_tokenizer ''Hello. Goodbye now.'' 15 6
        = [''Hello.'', ''Hello. Goodbye now.'']
   \<and> length ''Hello. Goodbye now.'' = 19 \<and> length ''Hello.'' = 6 \<and> length ''Goodbye now.'' = 12
   \<and> example_tokenizer ''Hello you. Hello me.'' = [''Hello you.'', ''Hello me.'']
   \<and> split_text_into_chunks example_tokenizer ''Hello you. Hello me.'' 19 0
        = [''Hello you. Hello me.'']
   \<and> length ''Hello you. Hello me.'' = 20"
  by code_simp




text \<open>
  C7, as the code has it. When the response is not of type \<open>no_results\<close> and at
  least one platform has a result, the comparison text is the header naming the
  feature, then the sections of the platforms in the order of the dictionary, then
  the summary. A platform with results contributes its name, the content of its
  top result (the first 300 characters followed by \<open>...\<close> when it is longer) and
  its source line; a platform whose list is empty contributes nothing. The
  comparison processor keeps the keys of its input in order and maps each platform
  to its ranked and filtered results, empty or not.
\<close>

theorem C7_comparison_sections:
  "(cr_type qr \<noteq> Some ''no_results'' \<and> cr_results qr = Some results
      \<and> (\<exists>p \<in> set results. snd p \<noteq> []) \<longrightarrow>
      resp_content (generate_comparison_response qr)
        = comparison_header (feature_text (cr_analysis qr))
          @ concat (map section_of results)
          @ comparison_summary (feature_text (cr_analysis qr)) results)
   \<and> (distinct (map fst cr) \<longrightarrow>
        process_comparison_results h cr q feat
          = map (\<lambda>(c, rs). (c, filter_results h (rank_results rs (query_for feat q)))) cr)"
proof (intro conjI impI)
  assume a: "cr_type qr \<noteq> Some ''no_results'' \<and> cr_results qr = Some results
      \<and> (\<exists>p \<in> set results. snd p \<noteq> [])"
  then have ne: "results \<noteq> []" and ex: "list_ex (\<lambda>(c, cdp_results). cdp_results \<noteq> []) results"
    by (auto simp: list_ex_iff)
  show "resp_content (generate_comparison_response qr)
        = comparison_header (feature_text (cr_analysis qr))
          @ concat (map section_of results)
          @ comparison_summary (feature_text (cr_analysis qr)) results"
    using a ne ex
    by (simp add: generate_comparison_response_def Let_def text_response_def
          sections_loop_concat comparison_header_def comparison_summary_def)
next
  assume "distinct (map fst cr)"
  then show "process_comparison_results h cr q feat
          = map (\<lambda>(c, rs). (c, filter_results h (rank_results rs (query_for feat q)))) cr"
    using process_loop_map [of "[]" cr h] 
    by (simp add: process_comparison_results_def query_for_def Let_def)
qed

text \<open>Results for segment and an empty list for lytics.\<close>

theorem C7_comparison_sections_witness:
  "cr_type example_comparison \<noteq> Some ''no_results''
   \<and> cr_results example_comparison = Some [(''segment'', [tracking_result]), (''lytics'', [])]
   \<and> resp_content (generate_comparison_response example_comparison)
        = comparison_header ''tracking''
          @ section_of (''segment'', [tracking_result])
          @ comparison_summary ''tracking'' [(''segment'', [tracking_result]), (''lytics'', [])]
   \<and> process_comparison_results length_hash [(''segment'', []), (''lytics'', [])] ''segment vs lytics'' None
        = [(''segment'', []), (''lytics'', [])]"
proof -
  have t: "cr_type example_comparison \<noteq> Some ''no_results''"
    and r: "cr_results example_comparison = Some [(''segment'', [tracking_result]), (''lytics'', [])]"
    and f: "feature_text (cr_analysis example_comparison) = ''tracking''"
    by (simp_all add: example_comparison_def feature_text_def tracking_analysis_def)
  have d: "distinct (map fst [(''segment'', []::result list), (''lytics'', [])])" by simp
  from C7_comparison_sections [of example_comparison "[(''segment'', [tracking_result]), (''lytics'', [])]"
         "[(''segment'', []), (''lytics'', [])]" length_hash "''segment vs lytics''" None]
  show ?thesis using t r d
    by (simp add: f rank_results_def filter_results_def)
qed

text \<open>
  C7 as stated fails: for a dictionary with the keys segment and lytics, the list
  of lytics empty, the text has no section and no placeholder for lytics.
\<close>

theorem C7_counterexample:
  "cr_results example_comparison = Some [(''segment'', [tracking_result]), (''lytics'', [])]
   \<and> \<not> contains (resp_content (generate_comparison_response example_comparison)) ''Lytics''
   \<and> \<not> contains (resp_content (generate_comparison_response example_comparison)) ''specific information''"
  by code_simp

text \<open>
  C8 fails on the code. For a how-to response whose top result lists three
  numbered steps, one per line, the numbered pattern matches only the last step,
  because \<open>.\<close> does not match the newline and \<open>$\<close> matches only at the end of
  the content. One step is fewer than two, so the answer is not the step list with
  its prefix but the fallback text followed by the raw content.
\<close>

theorem C8_newline_steps:
  "extract_steps steps_on_lines = [''Save'']
   \<and> resp_content (generate_regular_response (how_to_response steps_on_lines))
       = ''Here'' @ apostrophe @ ''s information on how to do that in Segment:'' @ nl @ nl
         @ steps_on_lines @ nl @ nl @ segment_source_line"
  by code_simp

end
